theory Spec2Isabelle
  imports Main
begin

section \<open>Data model\<close>

text \<open>
  The analyzer of \<^verbatim>\<open>src/hl7DataQualityService.js\<close> works on JavaScript objects. Each
  object shape becomes a record, the two closed string enumerations become datatypes,
  a property that may be \<^verbatim>\<open>undefined\<close> becomes an \<open>option\<close>, and a string is the list
  of its code units (code units below 256; the patterns of the code only name ASCII
  characters). Penalties and scores are small integers in the code, so the
  JavaScript numbers are modelled as \<open>int\<close>.

  Several objects share property names (\<^verbatim>\<open>issues\<close>, \<^verbatim>\<open>isValid\<close>,
  \<^verbatim>\<open>messageType\<close>, ...). The unqualified name is the property of the final report;
  the property of another object is written with its record name in front.
\<close>

datatype category =
  Completeness | Accuracy | Consistency | Compliance | Formatting | BusinessRules

datatype severity = Critical | High | Medium | Low | Info

record quality_issue =
  category :: category
  severity :: severity
  field :: string
  issue :: string
  details :: string
  recommendation :: string

text \<open>
  The parsed message is produced by the external package \<^verbatim>\<open>hl7-parser\<close>. Its shape
  is taken from the properties the checks read (\<^verbatim>\<open>segments\<close>, \<^verbatim>\<open>segmentType\<close>,
  \<^verbatim>\<open>parsed\<close>, \<^verbatim>\<open>messageType\<close>, \<^verbatim>\<open>totalSegments\<close>) and from the data model of the
  specification: a field value is a string or absent.
\<close>

record segment =
  segmentType :: string
  parsed :: "string \<rightharpoonup> string"

record parsed_message =
  messageType :: "string option"
  totalSegments :: nat
  segments :: "segment list"

record validation =
  isValid :: bool
  errors :: "string list option"

record check_result =
  issues :: "quality_issue list"
  recommendations :: "string list option"
  scorePenalty :: int

record quality_report =
  overallScore :: int
  issues :: "quality_issue list"
  recommendations :: "string list"
  isValid :: bool
  messageType :: "string option"
  totalSegments :: "nat option"
  analysisDate :: "string option"

text \<open>A thrown \<^verbatim>\<open>Error\<close> object, with its \<^verbatim>\<open>message\<close>.\<close>

datatype fault = Error string

fun message :: "fault \<Rightarrow> string" where
  "message (Error m) = m"

text \<open>
  What the analyzer takes from outside: the two functions imported from
  \<^verbatim>\<open>hl7-parser\<close> (either may throw), the clock read by \<^verbatim>\<open>new Date().toISOString()\<close>,
  and the part of \<^verbatim>\<open>Date.parse\<close> that ECMAScript leaves to the implementation, namely
  its result on a string that is not a valid calendar date \<^verbatim>\<open>YYYY-MM-DD\<close>
  (\<open>None\<close> is the time value \<^verbatim>\<open>NaN\<close>).
\<close>

record env =
  validateHL7Message :: "string \<Rightarrow> fault + validation"
  parseHL7Message :: "string \<Rightarrow> fault + parsed_message"
  now :: string
  dateParseOther :: "string \<Rightarrow> int option"

section \<open>JavaScript strings and regular expressions\<close>

definition dq :: string where
  "dq = [CHR 0x22]"

text \<open>\<^verbatim>\<open>s.includes(t)\<close> on strings.\<close>

fun includes_str :: "string \<Rightarrow> string \<Rightarrow> bool" where
  "includes_str [] t = (t = [])"
| "includes_str (c # cs) t = (take (length t) (c # cs) = t \<or> includes_str cs t)"

text \<open>\<^verbatim>\<open>s.replace(pat, rep)\<close> with a string pattern: the first occurrence only.\<close>

fun replaceFirst :: "string \<Rightarrow> string \<Rightarrow> string \<Rightarrow> string" where
  "replaceFirst pat rep [] = (if pat = [] then rep else [])"
| "replaceFirst pat rep (c # cs) =
     (if take (length pat) (c # cs) = pat then rep @ drop (length pat) (c # cs)
      else c # replaceFirst pat rep cs)"

text \<open>\<^verbatim>\<open>xs.join(sep)\<close>.\<close>

fun join :: "string \<Rightarrow> string list \<Rightarrow> string" where
  "join sep [] = []"
| "join sep [x] = x"
| "join sep (x # y # ys) = x @ sep @ join sep (y # ys)"

text \<open>
  The regular expressions of the code use character classes, sequence, \<^verbatim>\<open>?\<close>,
  \<^verbatim>\<open>{m,n}\<close> and \<^verbatim>\<open>+\<close>. \<open>rems r s\<close> lists what is left of \<open>s\<close> after each way of
  matching \<open>r\<close> at its start, so that \<^verbatim>\<open>test\<close> (which only asks whether some match
  exists) does not depend on the order in which the engine backtracks.
\<close>

datatype regex =
  OneOf "char list"
  | Seq regex regex
  | Opt regex
  | Rep nat nat regex
  | Plus regex

fun iter :: "(string \<Rightarrow> string list) \<Rightarrow> nat \<Rightarrow> string list \<Rightarrow> string list" where
  "iter f 0 ss = ss"
| "iter f (Suc k) ss = iter f k (concat (map f ss))"

fun rems :: "regex \<Rightarrow> string \<Rightarrow> string list" where
  "rems (OneOf cls) s = (case s of [] \<Rightarrow> [] | c # cs \<Rightarrow> if c \<in> set cls then [cs] else [])"
| "rems (Seq a b) s = concat (map (rems b) (rems a s))"
| "rems (Opt a) s = rems a s @ [s]"
| "rems (Rep m n a) s = concat (map (\<lambda>k. iter (\<lambda>t. rems a t) k [s]) [m..<Suc n])"
| "rems (Plus a) s = concat (map (\<lambda>k. iter (\<lambda>t. rems a t) k [s]) [1..<Suc (length s)])"

text \<open>A pattern written \<^verbatim>\<open>/^...$/\<close>: the whole string must match.\<close>

definition regexTest :: "regex \<Rightarrow> string \<Rightarrow> bool" where
  "regexTest r s = ([] \<in> set (rems r s))"

text \<open>A pattern without anchors: a match may start anywhere.\<close>

fun regexSearch :: "regex \<Rightarrow> string \<Rightarrow> bool" where
  "regexSearch r [] = (rems r [] \<noteq> [])"
| "regexSearch r (c # cs) = (rems r (c # cs) \<noteq> [] \<or> regexSearch r cs)"

definition digits :: "char list" where
  "digits = ''0123456789''"

text \<open>\<^verbatim>\<open>\s\<close>, as far as it lies below 256: tab, LF, VT, FF, CR, space, no-break space.\<close>

definition whitespace :: "char list" where
  "whitespace = [CHR 0x09, CHR 0x0A, CHR 0x0B, CHR 0x0C, CHR 0x0D, CHR 0x20, CHR 0xA0]"

text \<open>\<^verbatim>\<open>/^\d{14}(\.\d{1,4})?([\+\-]\d{4})?$/\<close>\<close>

definition dateTimeRegex :: regex where
  "dateTimeRegex =
     Seq (Rep 14 14 (OneOf digits))
       (Seq (Opt (Seq (OneOf ''.'') (Rep 1 4 (OneOf digits))))
            (Opt (Seq (OneOf ''+-'') (Rep 4 4 (OneOf digits)))))"

text \<open>\<^verbatim>\<open>/^\d{8}(\d{6})?(\d{1,4})?([\+\-]\d{4})?$/\<close>, written twice in the code
  (as \<^verbatim>\<open>dobRegex\<close> and as \<^verbatim>\<open>dateRegex\<close>).\<close>

definition dobRegex :: regex where
  "dobRegex =
     Seq (Rep 8 8 (OneOf digits))
       (Seq (Opt (Rep 6 6 (OneOf digits)))
            (Seq (Opt (Rep 1 4 (OneOf digits)))
                 (Opt (Seq (OneOf ''+-'') (Rep 4 4 (OneOf digits))))))"

definition dateRegex :: regex where
  "dateRegex =
     Seq (Rep 8 8 (OneOf digits))
       (Seq (Opt (Rep 6 6 (OneOf digits)))
            (Seq (Opt (Rep 1 4 (OneOf digits)))
                 (Opt (Seq (OneOf ''+-'') (Rep 4 4 (OneOf digits))))))"

text \<open>\<^verbatim>\<open>/^\d{3}-?\d{2}-?\d{4}$/\<close>\<close>

definition ssnRegex :: regex where
  "ssnRegex =
     Seq (Rep 3 3 (OneOf digits))
       (Seq (Opt (OneOf ''-''))
            (Seq (Rep 2 2 (OneOf digits))
                 (Seq (Opt (OneOf ''-'')) (Rep 4 4 (OneOf digits)))))"

text \<open>\<^verbatim>\<open>/[\d\-\(\)\s]+/\<close>\<close>

definition phoneRegex :: regex where
  "phoneRegex = Plus (OneOf (digits @ ''-()'' @ whitespace))"

section \<open>Dates\<close>

text \<open>
  The business rules build \<^verbatim>\<open>new Date(v.substring(0, 8).replace(/(\d{4})(\d{2})(\d{2})/,
  '$1-$2-$3'))\<close>. \<open>dashDate\<close> is that \<^verbatim>\<open>replace\<close>: the first run of eight digits gets
  its two dashes.
\<close>

fun dashDate :: "string \<Rightarrow> string" where
  "dashDate [] = []"
| "dashDate (c # cs) =
     (if 8 \<le> length (c # cs) \<and> set (take 8 (c # cs)) \<subseteq> set digits
      then take 4 (c # cs) @ ''-'' @ take 2 (drop 4 (c # cs)) @ ''-'' @
           take 2 (drop 6 (c # cs)) @ drop 8 (c # cs)
      else c # dashDate cs)"

definition digitVal :: "char \<Rightarrow> int" where
  "digitVal c = int (of_char c) - 48"

definition decimal :: "string \<Rightarrow> int" where
  "decimal s = foldl (\<lambda>n c. 10 * n + digitVal c) 0 s"

text \<open>ECMAScript's \<^verbatim>\<open>DayFromYear\<close>, leap years and the day number of a calendar date.\<close>

definition DayFromYear :: "int \<Rightarrow> int" where
  "DayFromYear y =
     365 * (y - 1970) + (y - 1969) div 4 - (y - 1901) div 100 + (y - 1601) div 400"

definition InLeapYear :: "int \<Rightarrow> bool" where
  "InLeapYear y = ((y mod 4 = 0 \<and> y mod 100 \<noteq> 0) \<or> y mod 400 = 0)"

definition monthLengths :: "int \<Rightarrow> int list" where
  "monthLengths y =
     [31, if InLeapYear y then 29 else 28, 31, 30, 31, 30, 31, 31, 30, 31, 30, 31]"

definition MakeDay :: "int \<Rightarrow> int \<Rightarrow> int \<Rightarrow> int" where
  "MakeDay y m d = DayFromYear y + sum_list (take (nat (m - 1)) (monthLengths y)) + d - 1"

definition msPerDay :: int where
  "msPerDay = 86400000"

text \<open>
  \<^verbatim>\<open>new Date(s)\<close> as a time value. A date-only string \<^verbatim>\<open>YYYY-MM-DD\<close> with a month in
  1..12 and a day of that month is midnight UTC of that day; every other string is
  left to the implementation.
\<close>

definition newDate :: "(string \<Rightarrow> int option) \<Rightarrow> string \<Rightarrow> int option" where
  "newDate other s =
     (if length s = 10 \<and> set (take 4 s) \<subseteq> set digits \<and> s ! 4 = CHR ''-'' \<and>
         set (take 2 (drop 5 s)) \<subseteq> set digits \<and> s ! 7 = CHR ''-'' \<and>
         set (drop 8 s) \<subseteq> set digits
      then let y = decimal (take 4 s); m = decimal (take 2 (drop 5 s));
               d = decimal (drop 8 s)
           in if 1 \<le> m \<and> m \<le> 12 \<and> 1 \<le> d \<and> d \<le> monthLengths y ! nat (m - 1)
              then Some (MakeDay y m d * msPerDay)
              else other s
      else other s)"

text \<open>\<^verbatim>\<open>a < b\<close> on two \<^verbatim>\<open>Date\<close> objects: false when either is invalid.\<close>

definition dateLess :: "int option \<Rightarrow> int option \<Rightarrow> bool" where
  "dateLess a b = (case (a, b) of (Some x, Some y) \<Rightarrow> x < y | _ \<Rightarrow> False)"

section \<open>JavaScript truthiness\<close>

text \<open>
  A field value is a string or \<^verbatim>\<open>undefined\<close>. It is falsy when it is \<^verbatim>\<open>undefined\<close>
  or the empty string. \<open>str\<close> is the conversion to a string that \<^verbatim>\<open>test\<close>
  and template literals apply, and \<open>orElse\<close> is \<^verbatim>\<open>v || d\<close>.
\<close>

definition truthy :: "string option \<Rightarrow> bool" where
  "truthy v = (case v of None \<Rightarrow> False | Some s \<Rightarrow> s \<noteq> [])"

definition str :: "string option \<Rightarrow> string" where
  "str v = (case v of None \<Rightarrow> ''undefined'' | Some s \<Rightarrow> s)"

definition orElse :: "string option \<Rightarrow> string \<Rightarrow> string" where
  "orElse v d = (if truthy v then str v else d)"

section \<open>The ten checks\<close>

text \<open>
  Every check starts with \<^verbatim>\<open>issues = []\<close> and \<^verbatim>\<open>scorePenalty = 0\<close> and, for each rule
  that fires, runs \<^verbatim>\<open>issues.push(i)\<close> followed by \<^verbatim>\<open>scorePenalty += n\<close>. The pair of
  the two variables is passed along; \<open>addIssue i n\<close> is that pair of statements.
\<close>

definition addIssue ::
  "quality_issue \<Rightarrow> int \<Rightarrow> quality_issue list \<times> int \<Rightarrow> quality_issue list \<times> int" where
  "addIssue i n st = (fst st @ [i], snd st + n)"

definition requiredFields :: "(string \<times> string) list" where
  "requiredFields =
     [(''field3'', ''Sending Application''),
      (''field4'', ''Sending Facility''),
      (''field5'', ''Receiving Application''),
      (''field6'', ''Receiving Facility''),
      (''field9'', ''Message Type''),
      (''field10'', ''Message Control ID''),
      (''field12'', ''Version ID'')]"

definition checkMSHCompleteness :: "parsed_message \<Rightarrow> check_result" where
  "checkMSHCompleteness pm =
     (case find (\<lambda>s. segmentType s = ''MSH'') (segments pm) of
        None \<Rightarrow>
          \<lparr>check_result.issues =
             [\<lparr>category = Completeness, severity = Critical, field = ''MSH'',
               issue = ''Missing MSH segment'',
               details = ''All HL7 messages must start with an MSH segment'',
               recommendation = ''Add MSH segment as the first segment''\<rparr>],
           check_result.recommendations = None,
           scorePenalty = 20\<rparr>
      | Some mshSegment \<Rightarrow>
          let msh = parsed mshSegment;
              st = ([], 0);
              st = foldl (\<lambda>st (fld, name).
                     if \<not> truthy (msh fld) \<or> msh fld = Some [] \<or> msh fld = Some ''Unknown''
                     then addIssue
                       \<lparr>category = Completeness, severity = High,
                        field = ''MSH-'' @ replaceFirst ''field'' [] fld,
                        issue = ''Missing '' @ name,
                        details = name @ '' is required in MSH segment'',
                        recommendation = ''Populate MSH-'' @ replaceFirst ''field'' [] fld @
                          '' with appropriate value''\<rparr> 2 st
                     else st) st requiredFields;
              st = (if truthy (msh ''field7'') \<and> msh ''field7'' \<noteq> Some ''Unknown''
                    then if \<not> regexTest dateTimeRegex (str (msh ''field7''))
                      then addIssue
                        \<lparr>category = Formatting, severity = Medium, field = ''MSH-7'',
                         issue = ''Invalid Date/Time format'',
                         details = ''Date/Time should be in format YYYYMMDDHHMMSS[.SSSS][+/-ZZZZ]'',
                         recommendation =
                           ''Format date/time as YYYYMMDDHHMMSS (e.g., 20240101120000)''\<rparr> 1 st
                      else st
                    else addIssue
                      \<lparr>category = Completeness, severity = High, field = ''MSH-7'',
                       issue = ''Missing Date/Time of Message'',
                       details = ''Message timestamp is required'',
                       recommendation = ''Add Date/Time of Message in MSH-7''\<rparr> 2 st)
          in \<lparr>check_result.issues = fst st, check_result.recommendations = Some [],
              scorePenalty = snd st\<rparr>)"

definition checkRequiredSegments :: "parsed_message \<Rightarrow> check_result" where
  "checkRequiredSegments pm =
     (let messageType = orElse (parsed_message.messageType pm) [];
          segmentTypes = map segmentType (segments pm);
          st = ([], 0);
          st = (if includes_str messageType ''ADT''
                then
                  let st = (if ''PID'' \<notin> set segmentTypes
                            then addIssue
                              \<lparr>category = Completeness, severity = Critical, field = ''PID'',
                               issue = ''Missing PID segment'',
                               details =
                                 ''ADT messages require a PID (Patient Identification) segment'',
                               recommendation =
                                 ''Add PID segment with patient identification information''\<rparr>
                              15 st
                            else st)
                  in (if ''PV1'' \<notin> set segmentTypes
                      then addIssue
                        \<lparr>category = Completeness, severity = High, field = ''PV1'',
                         issue = ''Missing PV1 segment'',
                         details =
                           ''ADT messages typically require a PV1 (Patient Visit) segment'',
                         recommendation = ''Add PV1 segment with patient visit information''\<rparr>
                        10 st
                      else st)
                else st)
      in \<lparr>check_result.issues = fst st, check_result.recommendations = None,
          scorePenalty = snd st\<rparr>)"

definition checkPIDCompleteness :: "parsed_message \<Rightarrow> check_result" where
  "checkPIDCompleteness pm =
     (case find (\<lambda>s. segmentType s = ''PID'') (segments pm) of
        None \<Rightarrow>
          \<lparr>check_result.issues = [], check_result.recommendations = Some [],
           scorePenalty = 0\<rparr>
      | Some pidSegment \<Rightarrow>
          let pid = parsed pidSegment;
              st = ([], 0);
              st = (if \<not> truthy (pid ''field5'') \<or> pid ''field5'' = Some []
                    then addIssue
                      \<lparr>category = Completeness, severity = High, field = ''PID-5'',
                       issue = ''Missing Patient Name'',
                       details =
                         ''Patient name is typically required for patient identification'',
                       recommendation =
                         ''Add patient name in PID-5 (format: Last^First^Middle^Suffix)''\<rparr> 5 st
                    else st);
              st = (if \<not> truthy (pid ''field3'') \<or> pid ''field3'' = Some []
                    then addIssue
                      \<lparr>category = Completeness, severity = High, field = ''PID-3'',
                       issue = ''Missing Patient Identifier'',
                       details = ''Patient identifier is required for proper patient matching'',
                       recommendation = ''Add patient identifier list in PID-3''\<rparr> 5 st
                    else st);
              st = (if \<not> truthy (pid ''field7'') \<or> pid ''field7'' = Some []
                    then addIssue
                      \<lparr>category = Completeness, severity = Medium, field = ''PID-7'',
                       issue = ''Missing Date of Birth'',
                       details = ''Date of birth is important for patient identification '' @
                         ''and age calculation'',
                       recommendation = ''Add date of birth in PID-7 (format: YYYYMMDD)''\<rparr> 3 st
                    else if \<not> regexTest dobRegex (str (pid ''field7''))
                    then addIssue
                      \<lparr>category = Formatting, severity = Medium, field = ''PID-7'',
                       issue = ''Invalid Date of Birth format'',
                       details = ''Date of birth should be in format YYYYMMDD'',
                       recommendation = ''Format date of birth as YYYYMMDD (e.g., 19800115)''\<rparr>
                      2 st
                    else st);
              st = (if \<not> truthy (pid ''field8'') \<or> pid ''field8'' = Some []
                    then addIssue
                      \<lparr>category = Completeness, severity = Low, field = ''PID-8'',
                       issue = ''Missing Administrative Sex'',
                       details = ''Administrative sex is useful for demographic reporting'',
                       recommendation = ''Add administrative sex in PID-8 (M, F, O, U, or A)''\<rparr>
                      1 st
                    else if str (pid ''field8'') \<notin> set [''M'', ''F'', ''O'', ''U'', ''A'']
                    then addIssue
                      \<lparr>category = Accuracy, severity = Medium, field = ''PID-8'',
                       issue = ''Invalid Administrative Sex value'',
                       details = ''Value '' @ dq @ str (pid ''field8'') @ dq @
                         '' is not a valid administrative sex code'',
                       recommendation = ''Use valid codes: M (Male), F (Female), O (Other), '' @
                         ''U (Unknown), A (Ambiguous)''\<rparr> 2 st
                    else st)
          in \<lparr>check_result.issues = fst st, check_result.recommendations = Some [],
              scorePenalty = snd st\<rparr>)"

definition dateFields :: "(string \<times> string \<times> string) list" where
  "dateFields =
     [(''MSH'', ''field7'', ''Date/Time of Message''),
      (''PID'', ''field7'', ''Date of Birth''),
      (''PID'', ''field29'', ''Patient Death Date''),
      (''PV1'', ''field44'', ''Admit Date/Time''),
      (''PV1'', ''field45'', ''Discharge Date/Time''),
      (''EVN'', ''field2'', ''Recorded Date/Time'')]"

text \<open>The body of the \<^verbatim>\<open>forEach\<close> over \<^verbatim>\<open>dateFields\<close>.\<close>

definition dateFieldStep ::
  "parsed_message \<Rightarrow> quality_issue list \<times> int \<Rightarrow> string \<times> string \<times> string \<Rightarrow>
   quality_issue list \<times> int" where
  "dateFieldStep pm st entry =
     (case entry of (segName, fld, name) \<Rightarrow>
        (case find (\<lambda>s. segmentType s = segName) (segments pm) of
           None \<Rightarrow> st
         | Some seg \<Rightarrow>
             if truthy (parsed seg fld)
             then let v = str (parsed seg fld)
                  in if \<not> regexTest dateRegex v
                     then addIssue
                       \<lparr>category = Formatting, severity = Medium,
                        field = segName @ ''-'' @ replaceFirst ''field'' [] fld,
                        issue = ''Invalid '' @ name @ '' format'',
                        details = ''Date value '' @ dq @ v @ dq @
                          '' does not match HL7 date format'',
                        recommendation = ''Format dates as YYYYMMDD or YYYYMMDDHHMMSS''\<rparr> 1 st
                     else st
             else st))"

definition checkDateFormats :: "parsed_message \<Rightarrow> check_result" where
  "checkDateFormats pm =
     (let st = foldl (dateFieldStep pm) ([], 0) dateFields
      in \<lparr>check_result.issues = fst st, check_result.recommendations = None,
          scorePenalty = snd st\<rparr>)"

definition checkIdentifierFormats :: "parsed_message \<Rightarrow> check_result" where
  "checkIdentifierFormats pm =
     (let st = ([], 0);
          st = (case find (\<lambda>s. segmentType s = ''PID'') (segments pm) of
                  None \<Rightarrow> st
                | Some pidSegment \<Rightarrow>
                    if truthy (parsed pidSegment ''field19'')
                    then let ssn = str (parsed pidSegment ''field19'')
                         in if \<not> regexTest ssnRegex ssn
                            then addIssue
                              \<lparr>category = Formatting, severity = Medium, field = ''PID-19'',
                               issue = ''Invalid SSN format'',
                               details = ''SSN '' @ dq @ ssn @ dq @
                                 '' does not match expected format'',
                               recommendation = ''Format SSN as XXX-XX-XXXX or XXXXXXXXX''\<rparr>
                              2 st
                            else st
                    else st)
      in \<lparr>check_result.issues = fst st, check_result.recommendations = None,
          scorePenalty = snd st\<rparr>)"

text \<open>
  \<^verbatim>\<open>typeof address === 'string'\<close> holds for every field value of the data model, so
  only the search for the component separator remains of the condition.
\<close>

definition checkAddressFormats :: "parsed_message \<Rightarrow> check_result" where
  "checkAddressFormats pm =
     (let st = ([], 0);
          st = (case find (\<lambda>s. segmentType s = ''PID'') (segments pm) of
                  None \<Rightarrow> st
                | Some pidSegment \<Rightarrow>
                    if truthy (parsed pidSegment ''field11'')
                    then let address = str (parsed pidSegment ''field11'')
                         in if \<not> includes_str address ''^''
                            then addIssue
                              \<lparr>category = Formatting, severity = Low, field = ''PID-11'',
                               issue = ''Address may be missing components'',
                               details = ''HL7 addresses should have components separated '' @
                                 ''by ^ (Street^City^State^Zip^Country)'',
                               recommendation =
                                 ''Format address with components: Street^City^State^Zip^Country''\<rparr>
                              1 st
                            else st
                    else st)
      in \<lparr>check_result.issues = fst st, check_result.recommendations = None,
          scorePenalty = snd st\<rparr>)"

definition phoneFields :: "(string \<times> string) list" where
  "phoneFields =
     [(''field13'', ''Phone Number - Home''), (''field14'', ''Phone Number - Business'')]"

definition checkPhoneFormats :: "parsed_message \<Rightarrow> check_result" where
  "checkPhoneFormats pm =
     (let st = ([], 0);
          st = (case find (\<lambda>s. segmentType s = ''PID'') (segments pm) of
                  None \<Rightarrow> st
                | Some pidSegment \<Rightarrow>
                    foldl (\<lambda>st (fld, name).
                      if truthy (parsed pidSegment fld)
                      then let phone = str (parsed pidSegment fld)
                           in if \<not> regexSearch phoneRegex phone
                              then addIssue
                                \<lparr>category = Formatting, severity = Low,
                                 field = ''PID-'' @ replaceFirst ''field'' [] fld,
                                 issue = ''Invalid '' @ name @ '' format'',
                                 details = ''Phone number '' @ dq @ phone @ dq @
                                   '' may not be properly formatted'',
                                 recommendation =
                                   ''Format phone as [NNN][(999)]999-9999[X99999]''\<rparr> 1 st
                              else st
                      else st) st phoneFields)
      in \<lparr>check_result.issues = fst st, check_result.recommendations = None,
          scorePenalty = snd st\<rparr>)"

definition checkDataConsistency :: "parsed_message \<Rightarrow> check_result" where
  "checkDataConsistency pm =
     (let st = ([], 0);
          pidSegment = find (\<lambda>s. segmentType s = ''PID'') (segments pm);
          pv1Segment = find (\<lambda>s. segmentType s = ''PV1'') (segments pm);
          st = (case (pidSegment, pv1Segment) of
                  (Some pidSeg, Some pv1Seg) \<Rightarrow>
                    if truthy (parsed pv1Seg ''field2'')
                    then let patientClass = str (parsed pv1Seg ''field2'')
                         in if patientClass \<notin>
                               set [''I'', ''O'', ''E'', ''P'', ''R'', ''B'', ''N'', ''U'']
                            then addIssue
                              \<lparr>category = Consistency, severity = Medium, field = ''PV1-2'',
                               issue = ''Invalid Patient Class'',
                               details = ''Patient class '' @ dq @ patientClass @ dq @
                                 '' is not a valid code'',
                               recommendation =
                                 ''Use valid codes: I (Inpatient), O (Outpatient), '' @
                                 ''E (Emergency), P (Preadmit), R (Recurring), '' @
                                 ''B (Obstetrics), N (Newborn), U (Unknown)''\<rparr> 2 st
                            else st
                    else st
                | _ \<Rightarrow> st)
      in \<lparr>check_result.issues = fst st, check_result.recommendations = None,
          scorePenalty = snd st\<rparr>)"

text \<open>
  \<^verbatim>\<open>new Date(v.substring(0, 8).replace(/(\d{4})(\d{2})(\d{2})/, '$1-$2-$3'))\<close>, the
  expression the business rules apply to each of the four dates.
\<close>

definition dateOf :: "(string \<Rightarrow> int option) \<Rightarrow> string \<Rightarrow> int option" where
  "dateOf other v = newDate other (dashDate (take 8 v))"

definition checkBusinessRules :: "(string \<Rightarrow> int option) \<Rightarrow> parsed_message \<Rightarrow> check_result" where
  "checkBusinessRules other pm =
     (let st = ([], 0);
          st = (case find (\<lambda>s. segmentType s = ''PV1'') (segments pm) of
                  None \<Rightarrow> st
                | Some pv1Segment \<Rightarrow>
                    let admitDate = parsed pv1Segment ''field44'';
                        dischargeDate = parsed pv1Segment ''field45''
                    in if truthy admitDate \<and> truthy dischargeDate
                       then let admit = dateOf other (str admitDate);
                                discharge = dateOf other (str dischargeDate)
                            in if dateLess discharge admit
                               then addIssue
                                 \<lparr>category = BusinessRules, severity = High,
                                  field = ''PV1-44/45'',
                                  issue = ''Discharge date before admit date'',
                                  details =
                                    ''Discharge date should not be earlier than admit date'',
                                  recommendation =
                                    ''Verify and correct admit and discharge dates''\<rparr> 5 st
                               else st
                       else st);
          st = (case find (\<lambda>s. segmentType s = ''PID'') (segments pm) of
                  None \<Rightarrow> st
                | Some pidSegment \<Rightarrow>
                    let birthDate = parsed pidSegment ''field7'';
                        deathDate = parsed pidSegment ''field29''
                    in if truthy birthDate \<and> truthy deathDate
                       then let birth = dateOf other (str birthDate);
                                death = dateOf other (str deathDate)
                            in if dateLess death birth
                               then addIssue
                                 \<lparr>category = BusinessRules, severity = High,
                                  field = ''PID-7/29'',
                                  issue = ''Death date before birth date'',
                                  details = ''Death date should not be earlier than birth date'',
                                  recommendation =
                                    ''Verify and correct birth and death dates''\<rparr> 5 st
                               else st
                       else st)
      in \<lparr>check_result.issues = fst st, check_result.recommendations = None,
          scorePenalty = snd st\<rparr>)"

definition validVersions :: "string list" where
  "validVersions =
     [''2.1'', ''2.2'', ''2.3'', ''2.3.1'', ''2.4'', ''2.5'', ''2.5.1'', ''2.6'', ''2.7'',
      ''2.8'', ''2.8.1'', ''2.8.2'']"

definition checkVersionCompliance :: "parsed_message \<Rightarrow> check_result" where
  "checkVersionCompliance pm =
     (let st = ([], 0);
          st = (case find (\<lambda>s. segmentType s = ''MSH'') (segments pm) of
                  None \<Rightarrow> st
                | Some mshSegment \<Rightarrow>
                    if truthy (parsed mshSegment ''field12'')
                    then let version = str (parsed mshSegment ''field12'')
                         in if version \<notin> set validVersions
                            then addIssue
                              \<lparr>category = Compliance, severity = Medium, field = ''MSH-12'',
                               issue = ''Unusual HL7 version'',
                               details = ''Version '' @ dq @ version @ dq @
                                 '' is not a standard HL7 v2.x version'',
                               recommendation =
                                 ''Verify version ID matches actual message structure '' @
                                 ''(common versions: 2.3, 2.4, 2.5, 2.8)''\<rparr> 2 st
                            else st
                    else st)
      in \<lparr>check_result.issues = fst st, check_result.recommendations = None,
          scorePenalty = snd st\<rparr>)"

section \<open>The analysis\<close>

text \<open>
  The array literal \<^verbatim>\<open>checks = [checkMSHCompleteness(parsed), ...]\<close> calls the checks
  from left to right before anything is merged; a check that throws leaves the
  \<^verbatim>\<open>try\<close> block at once. The ten checks of the code cannot throw on the data model
  above, so the battery is a parameter of the pipeline (a list of checks that may
  throw), and \<open>analyzeDataQuality\<close> is the pipeline at the battery of the code. The
  documented way to extend the analyzer is to add an entry to that array.
\<close>

type_synonym check = "parsed_message \<Rightarrow> fault + check_result"

fun runChecks :: "check list \<Rightarrow> parsed_message \<Rightarrow> fault + check_result list" where
  "runChecks [] pm = Inr []"
| "runChecks (c # cs) pm =
     (case c pm of
        Inl e \<Rightarrow> Inl e
      | Inr r \<Rightarrow> (case runChecks cs pm of Inl e \<Rightarrow> Inl e | Inr rs \<Rightarrow> Inr (r # rs)))"

text \<open>
  The body of \<^verbatim>\<open>checks.forEach\<close>, on the three variables \<^verbatim>\<open>issues\<close>,
  \<^verbatim>\<open>recommendations\<close> and \<^verbatim>\<open>overallScore\<close>. An array is truthy, so the issues are
  always appended; \<^verbatim>\<open>recommendations\<close> may be missing from a result.
\<close>

definition mergeCheck ::
  "quality_issue list \<times> string list \<times> int \<Rightarrow> check_result \<Rightarrow>
   quality_issue list \<times> string list \<times> int" where
  "mergeCheck st checkResult =
     (case st of (iss, recs, score) \<Rightarrow>
        (iss @ check_result.issues checkResult,
         (case check_result.recommendations checkResult of
            None \<Rightarrow> recs
          | Some rs \<Rightarrow> recs @ rs),
         (if scorePenalty checkResult \<noteq> 0 then score - scorePenalty checkResult
          else score)))"

text \<open>\<^verbatim>\<open>[...new Set(xs)]\<close>: the first occurrence of each element, in order.\<close>

definition dedupe :: "string list \<Rightarrow> string list" where
  "dedupe xs = rev (remdups (rev xs))"

text \<open>
  The \<^verbatim>\<open>try\<close> block, from the three variables declared in front of it. \<open>Inl\<close> is
  an exception on its way to the \<^verbatim>\<open>catch\<close>, together with the \<^verbatim>\<open>issues\<close> array as it
  is at the throw (the \<^verbatim>\<open>catch\<close> pushes onto the same array). Every call that can
  throw comes before the first \<^verbatim>\<open>push\<close>.
\<close>

definition tryBlock ::
  "check list \<Rightarrow> env \<Rightarrow> string \<Rightarrow> (fault \<times> quality_issue list) + quality_report" where
  "tryBlock battery ev hl7Message =
     (let iss0 = []; recs0 = []; score0 = 100
      in case validateHL7Message ev hl7Message of
           Inl e \<Rightarrow> Inl (e, iss0)
         | Inr validation \<Rightarrow>
             if \<not> validation.isValid validation
             then Inr
               \<lparr>overallScore = max 0 (score0 - 30),
                issues = iss0 @
                  [\<lparr>category = Formatting, severity = Critical, field = ''Message Structure'',
                    issue = ''Invalid HL7 message format'',
                    details = orElse (map_option (join ''; '') (errors validation))
                      ''Message does not conform to HL7 standards'',
                    recommendation =
                      ''Ensure message starts with MSH segment and contains proper delimiters''\<rparr>],
                recommendations = recs0,
                isValid = False,
                messageType = None, totalSegments = None, analysisDate = None\<rparr>
             else
               (case parseHL7Message ev hl7Message of
                  Inl e \<Rightarrow> Inl (e, iss0)
                | Inr pm \<Rightarrow>
                    (case runChecks battery pm of
                       Inl e \<Rightarrow> Inl (e, iss0)
                     | Inr checks \<Rightarrow>
                         (case foldl mergeCheck (iss0, recs0, score0) checks of
                            (iss, recs, score) \<Rightarrow>
                              Inr
                                \<lparr>overallScore = max 0 (min 100 score),
                                 issues = iss,
                                 recommendations = dedupe recs,
                                 isValid = True,
                                 messageType = parsed_message.messageType pm,
                                 totalSegments = Some (parsed_message.totalSegments pm),
                                 analysisDate = Some (now ev)\<rparr>))))"

definition analyzeWith :: "check list \<Rightarrow> env \<Rightarrow> string \<Rightarrow> quality_report" where
  "analyzeWith battery ev hl7Message =
     (case tryBlock battery ev hl7Message of
        Inr report \<Rightarrow> report
      | Inl (error, iss) \<Rightarrow>
          \<lparr>overallScore = 0,
           issues = iss @
             [\<lparr>category = Formatting, severity = Critical, field = ''Message Parsing'',
               issue = ''Failed to parse message'',
               details = message error,
               recommendation =
                 ''Review message format and ensure it follows HL7 v2.x standards''\<rparr>],
           recommendations = [''Fix parsing errors before proceeding with quality analysis''],
           isValid = False,
           messageType = None, totalSegments = None, analysisDate = None\<rparr>)"

text \<open>The ten entries of the array literal, in the order of the code.\<close>

definition checkBattery :: "env \<Rightarrow> check list" where
  "checkBattery ev =
     [\<lambda>pm. Inr (checkMSHCompleteness pm),
      \<lambda>pm. Inr (checkRequiredSegments pm),
      \<lambda>pm. Inr (checkPIDCompleteness pm),
      \<lambda>pm. Inr (checkDateFormats pm),
      \<lambda>pm. Inr (checkIdentifierFormats pm),
      \<lambda>pm. Inr (checkAddressFormats pm),
      \<lambda>pm. Inr (checkPhoneFormats pm),
      \<lambda>pm. Inr (checkDataConsistency pm),
      \<lambda>pm. Inr (checkBusinessRules (dateParseOther ev) pm),
      \<lambda>pm. Inr (checkVersionCompliance pm)]"

definition analyzeDataQuality :: "env \<Rightarrow> string \<Rightarrow> quality_report" where
  "analyzeDataQuality ev hl7Message = analyzeWith (checkBattery ev) ev hl7Message"

section \<open>Notions used to state the properties\<close>

text \<open>The top-level recommendations a check result contributes to the merge.\<close>

definition recsOf :: "check_result \<Rightarrow> string list" where
  "recsOf r = (case check_result.recommendations r of None \<Rightarrow> [] | Some rs \<Rightarrow> rs)"

text \<open>A parsed message with every segment of one type removed.\<close>

definition withoutSegments :: "string \<Rightarrow> parsed_message \<Rightarrow> parsed_message" where
  "withoutSegments t pm = pm\<lparr>segments := filter (\<lambda>s. segmentType s \<noteq> t) (segments pm)\<rparr>"

text \<open>
  A parsed message with one field of the first segment of a type replaced (the first
  segment of a type is the one every check reads).
\<close>

fun updFirst :: "string \<Rightarrow> string \<Rightarrow> string \<Rightarrow> segment list \<Rightarrow> segment list" where
  "updFirst t k v [] = []"
| "updFirst t k v (s # ss) =
     (if segmentType s = t then s\<lparr>parsed := (parsed s)(k \<mapsto> v)\<rparr> # ss
      else s # updFirst t k v ss)"

definition withField :: "string \<Rightarrow> string \<Rightarrow> string \<Rightarrow> parsed_message \<Rightarrow> parsed_message" where
  "withField t k v pm = pm\<lparr>segments := updFirst t k v (segments pm)\<rparr>"

section \<open>The sample message and its parse\<close>

text \<open>The string returned by \<^verbatim>\<open>getSampleADTMessage()\<close>; the lines are joined by LF.\<close>

definition getSampleADTMessage :: string where
  "getSampleADTMessage =
     ''MSH|^~'' @ [CHR 0x5C] @ ''&|SendingApp|SendingFacility|ReceivingApp|'' @
     ''ReceivingFacility|20240101120000||ADT^A01^ADT_A01|12345|P|2.5'' @ [CHR 0x0A] @
     ''EVN|A01|20240101120000|||SendingUserID'' @ [CHR 0x0A] @
     ''PID|1||MRN123456789^^^HOSPITAL^MR||DOE^JOHN^MIDDLE^JR^^L||19800115|M|||'' @
     ''123 MAIN ST^^CITY^ST^12345^USA||555-123-4567|||SSN123456789||'' @
     ''DL123456789^STATE^20250101'' @ [CHR 0x0A] @
     ''NK1|1|SMITH^JANE^M^||WIFE|456 SECOND ST^^CITY^ST^67890^USA|555-987-6543|'' @
     ''555-111-2222|||20200101'' @ [CHR 0x0A] @
     ''PV1|1|I|ICU^101^A|||123456^DOCTOR^JOHN^MD^^MD|||SUR|||||123456789|||V123456||'' @
     ''20240101100000|20240101120000'' @ [CHR 0x0A] @
     ''OBX|1|NM|HR^Heart Rate^LN||72|/min^beats per minute^UCUM|N|||F|||20240101120000''"

text \<open>\<^verbatim>\<open>s.split(sep)\<close> for a one-character separator, and the decimal numeral of a number.\<close>

fun splitOn :: "char \<Rightarrow> string \<Rightarrow> string list" where
  "splitOn sep [] = [Nil]"
| "splitOn sep (c # cs) =
     (case splitOn sep cs of
        [] \<Rightarrow> [c] # Nil
      | t # ts \<Rightarrow> if c = sep then Nil # t # ts else (c # t) # ts)"

function showNat :: "nat \<Rightarrow> string" where
  "showNat n = (if n < 10 then [digits ! n] else showNat (n div 10) @ [digits ! (n mod 10)])"
  by pat_completeness auto
termination
  by (relation "measure id") auto

text \<open>
  Modelled from the spec: the field mapping of a segment as \<^verbatim>\<open>parseHL7Message\<close> of the
  package \<^verbatim>\<open>hl7-parser\<close> builds it; the package is imported by the code and is not part
  of the sources. The specification describes a mapping from a positional field key
  to a string value. The keys are the \<^verbatim>\<open>fieldN\<close> the checks read, and the labels the checks
  give them (\<^verbatim>\<open>field9\<close> of the header is the message type, \<^verbatim>\<open>field12\<close> its version,
  \<^verbatim>\<open>field7\<close> of the patient segment the date of birth) fix the numbering: the N-th value
  after the tag, and in the header one more, since there the separator itself is the
  first field.
\<close>

definition positionalFields :: "string list \<Rightarrow> (string \<times> string) list" where
  "positionalFields tokens =
     (case tokens of
        [] \<Rightarrow> []
      | tag # values \<Rightarrow>
          if tag = ''MSH''
          then zip (map (\<lambda>n. ''field'' @ showNat n) [1..<length values + 2]) (''|'' # values)
          else zip (map (\<lambda>n. ''field'' @ showNat n) [1..<length values + 1]) values)"

text \<open>
  Modelled from the spec: a segment of the result of \<^verbatim>\<open>parseHL7Message\<close>, with its type
  tag and its field mapping.
\<close>

definition positionalSegment :: "string \<Rightarrow> segment" where
  "positionalSegment line =
     (let tokens = splitOn (CHR ''|'') line
      in \<lparr>segmentType = (case tokens of [] \<Rightarrow> [] | tag # _ \<Rightarrow> tag),
          parsed = map_of (positionalFields tokens)\<rparr>)"

text \<open>
  Modelled from the spec: \<^verbatim>\<open>parseHL7Message\<close> of the package \<^verbatim>\<open>hl7-parser\<close>, which is not
  part of the sources. The specification describes its result as the ordered segments
  of the message in wire order, each with a type tag and named field values, together
  with the message type and the number of segments. A segment is a non-empty line.
\<close>

definition positionalParse :: "string \<Rightarrow> parsed_message" where
  "positionalParse raw =
     (let segs = map positionalSegment
                   (filter (\<lambda>l. l \<noteq> [])
                      (concat (map (splitOn (CHR 0x0D)) (splitOn (CHR 0x0A) raw))))
      in \<lparr>parsed_message.messageType =
            (case find (\<lambda>s. segmentType s = ''MSH'') segs of
               None \<Rightarrow> None
             | Some msh \<Rightarrow> parsed msh ''field9''),
          parsed_message.totalSegments = length segs,
          segments = segs\<rparr>)"

section \<open>Example inputs\<close>

text \<open>
  An environment for the examples: the validator asks for the header tag and its
  separator, the parser is the positional reading, and the implementation-defined
  part of \<^verbatim>\<open>Date.parse\<close> answers \<^verbatim>\<open>NaN\<close>.
\<close>

definition sampleEnv :: env where
  "sampleEnv =
     \<lparr>validateHL7Message =
        (\<lambda>m. Inr \<lparr>validation.isValid = (take 4 m = ''MSH|''), errors = Some []\<rparr>),
      parseHL7Message = (\<lambda>m. Inr (positionalParse m)),
      now = ''2024-01-01T12:00:00.000Z'',
      dateParseOther = (\<lambda>s. None)\<rparr>"

text \<open>The same environment with a parser that throws.\<close>

definition throwingEnv :: env where
  "throwingEnv = sampleEnv\<lparr>parseHL7Message := (\<lambda>m. Inl (Error ''Unexpected token''))\<rparr>"

text \<open>A battery whose second check throws after the first has run.\<close>

definition throwingBattery :: "check list" where
  "throwingBattery =
     [\<lambda>pm. Inr (checkMSHCompleteness pm), \<lambda>pm. Inl (Error ''check failed'')]"

text \<open>A header-only ADT message, and messages with one patient or one visit segment.\<close>

definition headerOnly :: parsed_message where
  "headerOnly =
     \<lparr>parsed_message.messageType = Some ''ADT^A01'',
      parsed_message.totalSegments = 1,
      segments =
        [\<lparr>segmentType = ''MSH'',
          parsed = map_of [(''field9'', ''ADT^A01''), (''field12'', ''2.5'')]\<rparr>]\<rparr>"

definition pidSegmentWith :: "string \<Rightarrow> segment" where
  "pidSegmentWith dob =
     \<lparr>segmentType = ''PID'',
      parsed = map_of [(''field3'', ''MRN123''), (''field5'', ''DOE^JOHN''),
                       (''field7'', dob), (''field8'', ''M'')]\<rparr>"

definition pidMessage :: "string \<Rightarrow> parsed_message" where
  "pidMessage dob =
     \<lparr>parsed_message.messageType = Some ''ADT^A01'',
      parsed_message.totalSegments = 1,
      segments = [pidSegmentWith dob]\<rparr>"

definition pv1SegmentWith :: "string \<Rightarrow> string \<Rightarrow> segment" where
  "pv1SegmentWith admit discharge =
     \<lparr>segmentType = ''PV1'',
      parsed = map_of [(''field2'', ''I''), (''field44'', admit), (''field45'', discharge)]\<rparr>"

definition visitMessage :: "string \<Rightarrow> string \<Rightarrow> parsed_message" where
  "visitMessage admit discharge =
     \<lparr>parsed_message.messageType = Some ''ADT^A01'',
      parsed_message.totalSegments = 1,
      segments = [pv1SegmentWith admit discharge]\<rparr>"

section \<open>The pipeline\<close>

lemma foldl_mergeCheck:
  "foldl mergeCheck (iss, recs, score) rs =
     (iss @ concat (map check_result.issues rs),
      recs @ concat (map recsOf rs),
      score - sum_list (map scorePenalty rs))"
  by (induction rs arbitrary: iss recs score)
     (simp_all add: mergeCheck_def recsOf_def split: option.split)

lemma runChecks_fault:
  "\<exists>c \<in> set battery. \<exists>e. c pm = Inl e \<Longrightarrow> \<exists>e. runChecks battery pm = Inl e"
proof (induction battery)
  case Nil
  then show ?case by simp
next
  case (Cons c cs)
  show ?case
  proof (cases "c pm")
    case (Inl e)
    then show ?thesis by simp
  next
    case (Inr r)
    with Cons.prems have "\<exists>c \<in> set cs. \<exists>e. c pm = Inl e" by auto
    then obtain e where "runChecks cs pm = Inl e" using Cons.IH by blast
    with Inr show ?thesis by simp
  qed
qed

lemma runChecks_checkBattery:
  "runChecks (checkBattery ev) pm =
     Inr [checkMSHCompleteness pm, checkRequiredSegments pm, checkPIDCompleteness pm,
          checkDateFormats pm, checkIdentifierFormats pm, checkAddressFormats pm,
          checkPhoneFormats pm, checkDataConsistency pm,
          checkBusinessRules (dateParseOther ev) pm, checkVersionCompliance pm]"
  by (simp add: checkBattery_def)

lemma tryBlock_score:
  "tryBlock battery ev m = Inr r \<Longrightarrow> 0 \<le> overallScore r \<and> overallScore r \<le> 100"
  by (auto simp: tryBlock_def Let_def split: sum.splits if_splits prod.splits)

lemma analyzeWith_score:
  "0 \<le> overallScore (analyzeWith battery ev m) \<and>
   overallScore (analyzeWith battery ev m) \<le> 100"
proof (cases "tryBlock battery ev m")
  case (Inl a)
  then show ?thesis by (cases a) (simp add: analyzeWith_def)
next
  case (Inr r)
  with tryBlock_score [OF Inr] show ?thesis by (simp add: analyzeWith_def)
qed

lemma analyzeWith_success:
  assumes "validateHL7Message ev m = Inr v" and "validation.isValid v"
    and "parseHL7Message ev m = Inr pm" and "runChecks battery pm = Inr rs"
  shows "analyzeWith battery ev m =
     \<lparr>overallScore = max 0 (min 100 (100 - sum_list (map scorePenalty rs))),
      issues = concat (map check_result.issues rs),
      recommendations = dedupe (concat (map recsOf rs)),
      isValid = True,
      messageType = parsed_message.messageType pm,
      totalSegments = Some (parsed_message.totalSegments pm),
      analysisDate = Some (now ev)\<rparr>"
  using assms by (simp add: analyzeWith_def tryBlock_def foldl_mergeCheck)

lemma sampleEnv_validates:
  "validateHL7Message sampleEnv getSampleADTMessage =
     Inr \<lparr>validation.isValid = True, errors = Some []\<rparr>"
  by (simp add: sampleEnv_def getSampleADTMessage_def)

lemma sampleEnv_parses:
  "parseHL7Message sampleEnv getSampleADTMessage = Inr (positionalParse getSampleADTMessage)"
  by (simp add: sampleEnv_def)

text \<open>
  Claim C1. For every input string, every environment and every battery of checks,
  the score of the report lies between 0 and 100: on the path of the structural gate
  it is 70, on the path of the \<^verbatim>\<open>catch\<close> it is 0, and after a completed analysis it is
  clamped, whatever the penalties add up to. The first half is the statement for the
  ten checks of the code, the second for any battery.
\<close>

theorem score_in_range:
  "(0 \<le> overallScore (analyzeDataQuality ev hl7Message) \<and>
    overallScore (analyzeDataQuality ev hl7Message) \<le> 100) \<and>
   (0 \<le> overallScore (analyzeWith battery ev hl7Message) \<and>
    overallScore (analyzeWith battery ev hl7Message) \<le> 100)"
  unfolding analyzeDataQuality_def using analyzeWith_score by blast

theorem score_in_range_witness:
  "(0 \<le> overallScore (analyzeDataQuality throwingEnv getSampleADTMessage) \<and>
    overallScore (analyzeDataQuality throwingEnv getSampleADTMessage) \<le> 100) \<and>
   (0 \<le> overallScore (analyzeWith throwingBattery throwingEnv getSampleADTMessage) \<and>
    overallScore (analyzeWith throwingBattery throwingEnv getSampleADTMessage) \<le> 100)"
  by (rule score_in_range)

text \<open>
  Claim C2. When the validator accepts the message and the parser returns a parsed
  message, the score is \<open>100\<close> minus the sum of the ten penalties, clamped to
  \<open>[0, 100]\<close>, and the issues are those of the ten checks, concatenated in the order
  of the battery.
\<close>

theorem success_score_and_issues:
  assumes "validateHL7Message ev hl7Message = Inr v" and "validation.isValid v"
    and "parseHL7Message ev hl7Message = Inr pm"
  shows
    "overallScore (analyzeDataQuality ev hl7Message) =
       max 0 (min 100 (100 - sum_list (map scorePenalty
         [checkMSHCompleteness pm, checkRequiredSegments pm, checkPIDCompleteness pm,
          checkDateFormats pm, checkIdentifierFormats pm, checkAddressFormats pm,
          checkPhoneFormats pm, checkDataConsistency pm,
          checkBusinessRules (dateParseOther ev) pm, checkVersionCompliance pm]))) \<and>
     issues (analyzeDataQuality ev hl7Message) =
       concat (map check_result.issues
         [checkMSHCompleteness pm, checkRequiredSegments pm, checkPIDCompleteness pm,
          checkDateFormats pm, checkIdentifierFormats pm, checkAddressFormats pm,
          checkPhoneFormats pm, checkDataConsistency pm,
          checkBusinessRules (dateParseOther ev) pm, checkVersionCompliance pm])"
  unfolding analyzeDataQuality_def
  by (simp only: analyzeWith_success [OF assms runChecks_checkBattery]
      quality_report.simps simp_thms)

theorem success_score_and_issues_witness:
  "validateHL7Message sampleEnv getSampleADTMessage =
     Inr \<lparr>validation.isValid = True, errors = Some []\<rparr> \<and>
   validation.isValid \<lparr>validation.isValid = True, errors = Some []\<rparr> \<and>
   parseHL7Message sampleEnv getSampleADTMessage = Inr (positionalParse getSampleADTMessage) \<and>
   overallScore (analyzeDataQuality sampleEnv getSampleADTMessage) =
     max 0 (min 100 (100 - sum_list (map scorePenalty
       [checkMSHCompleteness (positionalParse getSampleADTMessage),
        checkRequiredSegments (positionalParse getSampleADTMessage),
        checkPIDCompleteness (positionalParse getSampleADTMessage),
        checkDateFormats (positionalParse getSampleADTMessage),
        checkIdentifierFormats (positionalParse getSampleADTMessage),
        checkAddressFormats (positionalParse getSampleADTMessage),
        checkPhoneFormats (positionalParse getSampleADTMessage),
        checkDataConsistency (positionalParse getSampleADTMessage),
        checkBusinessRules (dateParseOther sampleEnv) (positionalParse getSampleADTMessage),
        checkVersionCompliance (positionalParse getSampleADTMessage)]))) \<and>
   issues (analyzeDataQuality sampleEnv getSampleADTMessage) =
     concat (map check_result.issues
       [checkMSHCompleteness (positionalParse getSampleADTMessage),
        checkRequiredSegments (positionalParse getSampleADTMessage),
        checkPIDCompleteness (positionalParse getSampleADTMessage),
        checkDateFormats (positionalParse getSampleADTMessage),
        checkIdentifierFormats (positionalParse getSampleADTMessage),
        checkAddressFormats (positionalParse getSampleADTMessage),
        checkPhoneFormats (positionalParse getSampleADTMessage),
        checkDataConsistency (positionalParse getSampleADTMessage),
        checkBusinessRules (dateParseOther sampleEnv) (positionalParse getSampleADTMessage),
        checkVersionCompliance (positionalParse getSampleADTMessage)])"
proof -
  have valid: "validation.isValid \<lparr>validation.isValid = True, errors = Some []\<rparr>"
    by simp
  from success_score_and_issues [OF sampleEnv_validates valid sampleEnv_parses]
    sampleEnv_validates valid sampleEnv_parses
  show ?thesis by blast
qed

text \<open>
  Claim C3. When the validator reports the message invalid, the report is the
  following one: one Critical Formatting issue for the field \<^verbatim>\<open>Message Structure\<close>, no
  recommendations, \<^verbatim>\<open>isValid\<close> false and the score \<open>max 0 (100 - 30) = 70\<close>. It has no
  message type, segment count or date, which only the path through the parser sets,
  and it is the same with any other parser and any other battery of checks in place:
  neither is called.
\<close>

theorem structural_gate_report:
  assumes "validateHL7Message ev hl7Message = Inr v" and "\<not> validation.isValid v"
  shows
    "analyzeDataQuality ev hl7Message =
       \<lparr>overallScore = 70,
        issues =
          [\<lparr>category = Formatting, severity = Critical, field = ''Message Structure'',
            issue = ''Invalid HL7 message format'',
            details = orElse (map_option (join ''; '') (errors v))
              ''Message does not conform to HL7 standards'',
            recommendation =
              ''Ensure message starts with MSH segment and contains proper delimiters''\<rparr>],
        recommendations = [],
        isValid = False,
        messageType = None, totalSegments = None, analysisDate = None\<rparr> \<and>
     analyzeWith battery (ev\<lparr>parseHL7Message := parser\<rparr>) hl7Message =
       analyzeDataQuality ev hl7Message"
  using assms by (simp add: analyzeDataQuality_def analyzeWith_def tryBlock_def)

theorem structural_gate_report_witness:
  "validateHL7Message sampleEnv ''PID|1'' =
     Inr \<lparr>validation.isValid = False, errors = Some []\<rparr> \<and>
   \<not> validation.isValid \<lparr>validation.isValid = False, errors = Some []\<rparr> \<and>
   analyzeDataQuality sampleEnv ''PID|1'' =
     \<lparr>overallScore = 70,
      issues =
        [\<lparr>category = Formatting, severity = Critical, field = ''Message Structure'',
          issue = ''Invalid HL7 message format'',
          details = ''Message does not conform to HL7 standards'',
          recommendation =
            ''Ensure message starts with MSH segment and contains proper delimiters''\<rparr>],
      recommendations = [],
      isValid = False,
      messageType = None, totalSegments = None, analysisDate = None\<rparr> \<and>
   analyzeWith throwingBattery
     (sampleEnv\<lparr>parseHL7Message := (\<lambda>m. Inl (Error ''Unexpected token''))\<rparr>) ''PID|1'' =
     analyzeDataQuality sampleEnv ''PID|1''"
proof -
  have rejected: "validateHL7Message sampleEnv ''PID|1'' =
      Inr \<lparr>validation.isValid = False, errors = Some []\<rparr>"
    by (simp add: sampleEnv_def)
  have invalid: "\<not> validation.isValid \<lparr>validation.isValid = False, errors = Some []\<rparr>"
    by simp
  from structural_gate_report [OF rejected invalid, of throwingBattery
      "\<lambda>m. Inl (Error ''Unexpected token'')"] rejected
  show ?thesis by (simp add: orElse_def truthy_def)
qed

text \<open>
  Claim C4. When the validator accepts the message and then the parser throws, or the
  parser returns and one of the checks of the battery throws, the report has exactly
  one issue, Critical Formatting for the field \<^verbatim>\<open>Message Parsing\<close>, the score 0,
  \<^verbatim>\<open>isValid\<close> false and the one generic recommendation; no finding of a check that ran
  before the throw is in it. The statement is for any battery; \<open>analyzeDataQuality ev\<close>
  is \<open>analyzeWith (checkBattery ev) ev\<close>, whose ten checks cannot throw, so that for it
  the parser is the only source of the fault.
\<close>

theorem fault_report:
  assumes "validateHL7Message ev hl7Message = Inr v" and "validation.isValid v"
    and "parseHL7Message ev hl7Message = Inl e \<or>
         (\<exists>pm. parseHL7Message ev hl7Message = Inr pm \<and>
               (\<exists>c \<in> set battery. \<exists>e'. c pm = Inl e'))"
  shows "\<exists>d. analyzeWith battery ev hl7Message =
     \<lparr>overallScore = 0,
      issues =
        [\<lparr>category = Formatting, severity = Critical, field = ''Message Parsing'',
          issue = ''Failed to parse message'',
          details = d,
          recommendation =
            ''Review message format and ensure it follows HL7 v2.x standards''\<rparr>],
      recommendations = [''Fix parsing errors before proceeding with quality analysis''],
      isValid = False,
      messageType = None, totalSegments = None, analysisDate = None\<rparr>"
  using assms(3)
proof
  assume "parseHL7Message ev hl7Message = Inl e"
  with assms(1,2) show ?thesis by (simp add: analyzeWith_def tryBlock_def)
next
  assume "\<exists>pm. parseHL7Message ev hl7Message = Inr pm \<and>
               (\<exists>c \<in> set battery. \<exists>e'. c pm = Inl e')"
  then obtain pm where pm: "parseHL7Message ev hl7Message = Inr pm"
    and "\<exists>c \<in> set battery. \<exists>e'. c pm = Inl e'" by blast
  then obtain e' where "runChecks battery pm = Inl e'" using runChecks_fault by blast
  with assms(1,2) pm show ?thesis by (simp add: analyzeWith_def tryBlock_def)
qed

theorem fault_report_witness:
  "validateHL7Message sampleEnv getSampleADTMessage =
     Inr \<lparr>validation.isValid = True, errors = Some []\<rparr> \<and>
   parseHL7Message sampleEnv getSampleADTMessage = Inr (positionalParse getSampleADTMessage) \<and>
   (\<exists>c \<in> set throwingBattery. \<exists>e'. c (positionalParse getSampleADTMessage) = Inl e') \<and>
   (\<exists>d. analyzeWith throwingBattery sampleEnv getSampleADTMessage =
     \<lparr>overallScore = 0,
      issues =
        [\<lparr>category = Formatting, severity = Critical, field = ''Message Parsing'',
          issue = ''Failed to parse message'',
          details = d,
          recommendation =
            ''Review message format and ensure it follows HL7 v2.x standards''\<rparr>],
      recommendations = [''Fix parsing errors before proceeding with quality analysis''],
      isValid = False,
      messageType = None, totalSegments = None, analysisDate = None\<rparr>)"
proof -
  have valid: "validation.isValid \<lparr>validation.isValid = True, errors = Some []\<rparr>"
    by simp
  have throws: "\<exists>c \<in> set throwingBattery. \<exists>e'. c (positionalParse getSampleADTMessage) = Inl e'"
    by (simp add: throwingBattery_def)
  have "parseHL7Message sampleEnv getSampleADTMessage = Inl (Error []) \<or>
        (\<exists>pm. parseHL7Message sampleEnv getSampleADTMessage = Inr pm \<and>
              (\<exists>c \<in> set throwingBattery. \<exists>e'. c pm = Inl e'))"
    using sampleEnv_parses throws by blast
  from fault_report [OF sampleEnv_validates valid this]
    sampleEnv_validates sampleEnv_parses throws
  show ?thesis by blast
qed

section \<open>Segments and fields\<close>

lemma find_None_segmentType:
  "t \<notin> set (map segmentType segs) \<Longrightarrow> find (\<lambda>s. segmentType s = t) segs = None"
  by (induction segs) auto

lemma includes_str_nonempty: "includes_str s t \<Longrightarrow> t \<noteq> [] \<Longrightarrow> s \<noteq> []"
  by (cases s) auto

lemma find_withoutSegments_same:
  "find (\<lambda>s. segmentType s = t) (filter (\<lambda>s. segmentType s \<noteq> t) segs) = None"
  by (induction segs) auto

lemma find_withoutSegments_other:
  "t' \<noteq> t \<Longrightarrow>
   find (\<lambda>s. segmentType s = t') (filter (\<lambda>s. segmentType s \<noteq> t) segs) =
   find (\<lambda>s. segmentType s = t') segs"
  by (induction segs) auto

lemma find_updFirst_same:
  "find (\<lambda>s. segmentType s = t) (updFirst t k v segs) =
   map_option (\<lambda>s. s\<lparr>parsed := (parsed s)(k \<mapsto> v)\<rparr>) (find (\<lambda>s. segmentType s = t) segs)"
  by (induction segs) (auto simp: fun_upd_def)

lemma find_updFirst_other:
  "t' \<noteq> t \<Longrightarrow>
   find (\<lambda>s. segmentType s = t') (updFirst t k v segs) = find (\<lambda>s. segmentType s = t') segs"
  by (induction segs) auto

lemma foldl_invariant:
  "P st \<Longrightarrow> (\<And>st x. P st \<Longrightarrow> P (f st x)) \<Longrightarrow> P (foldl f st xs)"
  by (induction xs arbitrary: st) auto

lemma find_pidMessage:
  "find (\<lambda>s. segmentType s = ''PID'') (segments (pidMessage dob)) = Some (pidSegmentWith dob)"
  by (simp add: pidMessage_def pidSegmentWith_def)

lemma field7_pidSegmentWith: "parsed (pidSegmentWith dob) ''field7'' = Some dob"
  by (simp add: pidSegmentWith_def)

lemma find_visitMessage:
  "find (\<lambda>s. segmentType s = ''PV1'') (segments (visitMessage a d)) = Some (pv1SegmentWith a d)"
  by (simp add: visitMessage_def pv1SegmentWith_def)

lemma fields_pv1SegmentWith:
  "parsed (pv1SegmentWith a d) ''field44'' = Some a"
  "parsed (pv1SegmentWith a d) ''field45'' = Some d"
  by (simp_all add: pv1SegmentWith_def)

section \<open>Required segments and the patient segment\<close>

text \<open>
  Claim C5. For a parsed message whose message type contains \<^verbatim>\<open>ADT\<close> and which has no
  PID segment, the first issue of the required-segments check is the Critical
  \<^verbatim>\<open>Missing PID segment\<close> with its penalty of 15 (followed by the issue for a missing PV1
  segment and its 10 points when that segment is absent as well), and the
  PID-completeness check reports nothing and costs nothing.
\<close>

theorem required_segments_no_pid:
  assumes "parsed_message.messageType pm = Some mt" and "includes_str mt ''ADT''"
    and "''PID'' \<notin> set (map segmentType (segments pm))"
  shows
    "check_result.issues (checkRequiredSegments pm) =
       \<lparr>category = Completeness, severity = Critical, field = ''PID'',
        issue = ''Missing PID segment'',
        details = ''ADT messages require a PID (Patient Identification) segment'',
        recommendation = ''Add PID segment with patient identification information''\<rparr> #
       (if ''PV1'' \<in> set (map segmentType (segments pm)) then []
        else [\<lparr>category = Completeness, severity = High, field = ''PV1'',
               issue = ''Missing PV1 segment'',
               details = ''ADT messages typically require a PV1 (Patient Visit) segment'',
               recommendation = ''Add PV1 segment with patient visit information''\<rparr>]) \<and>
     scorePenalty (checkRequiredSegments pm) =
       15 + (if ''PV1'' \<in> set (map segmentType (segments pm)) then 0 else 10) \<and>
     check_result.issues (checkPIDCompleteness pm) = [] \<and>
     scorePenalty (checkPIDCompleteness pm) = 0"
proof -
  from assms(2) have "mt \<noteq> []" using includes_str_nonempty by fastforce
  with assms(1,2) have adt: "includes_str (orElse (parsed_message.messageType pm) []) ''ADT''"
    by (simp add: orElse_def truthy_def str_def)
  from assms(3) have nopid: "find (\<lambda>s. segmentType s = ''PID'') (segments pm) = None"
    by (rule find_None_segmentType)
  from adt assms(3) nopid show ?thesis
    by (simp add: checkRequiredSegments_def checkPIDCompleteness_def Let_def addIssue_def)
qed

theorem required_segments_no_pid_witness:
  "parsed_message.messageType headerOnly = Some ''ADT^A01'' \<and>
   includes_str ''ADT^A01'' ''ADT'' \<and>
   ''PID'' \<notin> set (map segmentType (segments headerOnly)) \<and>
   check_result.issues (checkRequiredSegments headerOnly) =
     [\<lparr>category = Completeness, severity = Critical, field = ''PID'',
       issue = ''Missing PID segment'',
       details = ''ADT messages require a PID (Patient Identification) segment'',
       recommendation = ''Add PID segment with patient identification information''\<rparr>,
      \<lparr>category = Completeness, severity = High, field = ''PV1'',
       issue = ''Missing PV1 segment'',
       details = ''ADT messages typically require a PV1 (Patient Visit) segment'',
       recommendation = ''Add PV1 segment with patient visit information''\<rparr>] \<and>
   scorePenalty (checkRequiredSegments headerOnly) = 25 \<and>
   check_result.issues (checkPIDCompleteness headerOnly) = [] \<and>
   scorePenalty (checkPIDCompleteness headerOnly) = 0"
proof -
  have mt: "parsed_message.messageType headerOnly = Some ''ADT^A01''"
    by (simp add: headerOnly_def)
  have adt: "includes_str ''ADT^A01'' ''ADT''" by simp
  have nopid: "''PID'' \<notin> set (map segmentType (segments headerOnly))"
    by (simp add: headerOnly_def)
  have nopv1: "''PV1'' \<notin> set (map segmentType (segments headerOnly))"
    by (simp add: headerOnly_def)
  from required_segments_no_pid [OF mt adt nopid] mt adt nopid nopv1
  show ?thesis by simp
qed

lemma dobRegex_dateRegex: "dobRegex = dateRegex"
  by (simp add: dobRegex_def dateRegex_def)

lemma dateRegex_slashes: "\<not> regexTest dateRegex ''1980/01/15''"
  by code_simp

lemma dateRegex_plain: "regexTest dateRegex ''19800115''"
  by code_simp

text \<open>
  Claim C7. When the birth-date field of the PID segment is \<^verbatim>\<open>1980/01/15\<close>, the
  PID-completeness check reports the Medium Formatting issue for \<^verbatim>\<open>PID-7\<close>; when it is
  \<^verbatim>\<open>19800115\<close>, the check reports no issue for \<^verbatim>\<open>PID-7\<close> at all. The PID segment is the
  first one of the message, the one the check reads.
\<close>

theorem pid7_format:
  assumes "find (\<lambda>s. segmentType s = ''PID'') (segments pm) = Some pidSegment"
    and "parsed pidSegment ''field7'' = Some ''1980/01/15''"
    and "find (\<lambda>s. segmentType s = ''PID'') (segments pm') = Some pidSegment'"
    and "parsed pidSegment' ''field7'' = Some ''19800115''"
  shows
    "filter (\<lambda>i. field i = ''PID-7'') (check_result.issues (checkPIDCompleteness pm)) =
       [\<lparr>category = Formatting, severity = Medium, field = ''PID-7'',
         issue = ''Invalid Date of Birth format'',
         details = ''Date of birth should be in format YYYYMMDD'',
         recommendation = ''Format date of birth as YYYYMMDD (e.g., 19800115)''\<rparr>] \<and>
     filter (\<lambda>i. field i = ''PID-7'') (check_result.issues (checkPIDCompleteness pm')) = []"
proof
  from assms(1,2) dateRegex_slashes
  show "filter (\<lambda>i. field i = ''PID-7'') (check_result.issues (checkPIDCompleteness pm)) =
       [\<lparr>category = Formatting, severity = Medium, field = ''PID-7'',
         issue = ''Invalid Date of Birth format'',
         details = ''Date of birth should be in format YYYYMMDD'',
         recommendation = ''Format date of birth as YYYYMMDD (e.g., 19800115)''\<rparr>]"
    by (simp add: checkPIDCompleteness_def Let_def addIssue_def truthy_def str_def
        dobRegex_dateRegex)
  from assms(3,4) dateRegex_plain
  show "filter (\<lambda>i. field i = ''PID-7'') (check_result.issues (checkPIDCompleteness pm')) = []"
    by (simp add: checkPIDCompleteness_def Let_def addIssue_def truthy_def str_def
        dobRegex_dateRegex)
qed

theorem pid7_format_witness:
  "find (\<lambda>s. segmentType s = ''PID'') (segments (pidMessage ''1980/01/15'')) =
     Some (pidSegmentWith ''1980/01/15'') \<and>
   parsed (pidSegmentWith ''1980/01/15'') ''field7'' = Some ''1980/01/15'' \<and>
   find (\<lambda>s. segmentType s = ''PID'') (segments (pidMessage ''19800115'')) =
     Some (pidSegmentWith ''19800115'') \<and>
   parsed (pidSegmentWith ''19800115'') ''field7'' = Some ''19800115'' \<and>
   filter (\<lambda>i. field i = ''PID-7'')
     (check_result.issues (checkPIDCompleteness (pidMessage ''1980/01/15''))) =
     [\<lparr>category = Formatting, severity = Medium, field = ''PID-7'',
       issue = ''Invalid Date of Birth format'',
       details = ''Date of birth should be in format YYYYMMDD'',
       recommendation = ''Format date of birth as YYYYMMDD (e.g., 19800115)''\<rparr>] \<and>
   filter (\<lambda>i. field i = ''PID-7'')
     (check_result.issues (checkPIDCompleteness (pidMessage ''19800115''))) = []"
  using pid7_format [OF find_pidMessage field7_pidSegmentWith find_pidMessage
      field7_pidSegmentWith]
    find_pidMessage field7_pidSegmentWith
  by blast

section \<open>Business rules\<close>

lemma dateOf_take8: "dateOf other v = dateOf other (take 8 v)"
  by (simp add: dateOf_def)

lemma dateOf_20240110: "dateOf other ''20240110'' = Some 1704844800000"
  by (simp add: dateOf_def newDate_def digits_def decimal_def digitVal_def MakeDay_def
      DayFromYear_def monthLengths_def InLeapYear_def msPerDay_def)

lemma dateOf_20240105: "dateOf other ''20240105'' = Some 1704412800000"
  by (simp add: dateOf_def newDate_def digits_def decimal_def digitVal_def MakeDay_def
      DayFromYear_def monthLengths_def InLeapYear_def msPerDay_def)

text \<open>
  What the visit rule adds to the result of the business check: the same check on the
  message without its PV1 segments gives the rest.
\<close>

lemma checkBusinessRules_pv1:
  assumes "find (\<lambda>s. segmentType s = ''PV1'') (segments pm) = Some pv1"
    and "parsed pv1 ''field44'' = Some a" and "parsed pv1 ''field45'' = Some d"
    and "take 8 a = x" and "take 8 d = y" and "x \<noteq> []" and "y \<noteq> []"
  shows "check_result.issues (checkBusinessRules other pm) =
           (if dateLess (dateOf other y) (dateOf other x)
            then [\<lparr>category = BusinessRules, severity = High, field = ''PV1-44/45'',
                   issue = ''Discharge date before admit date'',
                   details = ''Discharge date should not be earlier than admit date'',
                   recommendation = ''Verify and correct admit and discharge dates''\<rparr>]
            else []) @
           check_result.issues (checkBusinessRules other (withoutSegments ''PV1'' pm)) \<and>
         scorePenalty (checkBusinessRules other pm) =
           (if dateLess (dateOf other y) (dateOf other x) then 5 else 0) +
           scorePenalty (checkBusinessRules other (withoutSegments ''PV1'' pm))"
proof -
  have ta: "truthy (Some a)" and td: "truthy (Some d)"
    using assms(4-7) by (cases a; cases d; auto simp: truthy_def)+
  have da: "dateOf other a = dateOf other x" and dd: "dateOf other d = dateOf other y"
    using assms(4,5) dateOf_take8 by metis+
  show ?thesis
    using assms(1-3) ta td da dd
    by (simp add: checkBusinessRules_def withoutSegments_def find_withoutSegments_same
        find_withoutSegments_other Let_def addIssue_def str_def split: option.split)
qed

lemma no_pv1_issue_without:
  "filter (\<lambda>i. field i = ''PV1-44/45'')
     (check_result.issues (checkBusinessRules other (withoutSegments ''PV1'' pm))) = []"
  by (simp add: checkBusinessRules_def withoutSegments_def find_withoutSegments_same
      find_withoutSegments_other Let_def addIssue_def split: option.split)

text \<open>
  Claim C8. For a message whose PV1 segment has an admit value starting with
  \<^verbatim>\<open>20240110\<close> and a discharge value starting with \<^verbatim>\<open>20240105\<close> (only the first eight
  characters are read), the business check reports the High issue
  \<^verbatim>\<open>Discharge date before admit date\<close> first and charges 5 points for it, on top of
  what the check finds without the visit segment. With the two dates the other way
  round the visit segment adds neither an issue nor a penalty.
\<close>

theorem discharge_before_admit:
  assumes "find (\<lambda>s. segmentType s = ''PV1'') (segments pm) = Some pv1"
    and "parsed pv1 ''field44'' = Some admitDate"
    and "parsed pv1 ''field45'' = Some dischargeDate"
    and "take 8 admitDate = ''20240110''" and "take 8 dischargeDate = ''20240105''"
    and "find (\<lambda>s. segmentType s = ''PV1'') (segments pm') = Some pv1'"
    and "parsed pv1' ''field44'' = Some admitDate'"
    and "parsed pv1' ''field45'' = Some dischargeDate'"
    and "take 8 admitDate' = ''20240105''" and "take 8 dischargeDate' = ''20240110''"
  shows
    "check_result.issues (checkBusinessRules other pm) =
       \<lparr>category = BusinessRules, severity = High, field = ''PV1-44/45'',
        issue = ''Discharge date before admit date'',
        details = ''Discharge date should not be earlier than admit date'',
        recommendation = ''Verify and correct admit and discharge dates''\<rparr> #
       check_result.issues (checkBusinessRules other (withoutSegments ''PV1'' pm)) \<and>
     scorePenalty (checkBusinessRules other pm) =
       5 + scorePenalty (checkBusinessRules other (withoutSegments ''PV1'' pm)) \<and>
     check_result.issues (checkBusinessRules other pm') =
       check_result.issues (checkBusinessRules other (withoutSegments ''PV1'' pm')) \<and>
     scorePenalty (checkBusinessRules other pm') =
       scorePenalty (checkBusinessRules other (withoutSegments ''PV1'' pm')) \<and>
     filter (\<lambda>i. field i = ''PV1-44/45'')
       (check_result.issues (checkBusinessRules other pm')) = []"
proof -
  have before: "dateLess (dateOf other ''20240105'') (dateOf other ''20240110'')"
    by (simp add: dateOf_20240105 dateOf_20240110 dateLess_def)
  have after: "\<not> dateLess (dateOf other ''20240110'') (dateOf other ''20240105'')"
    by (simp add: dateOf_20240105 dateOf_20240110 dateLess_def)
  have first: "check_result.issues (checkBusinessRules other pm) =
       \<lparr>category = BusinessRules, severity = High, field = ''PV1-44/45'',
        issue = ''Discharge date before admit date'',
        details = ''Discharge date should not be earlier than admit date'',
        recommendation = ''Verify and correct admit and discharge dates''\<rparr> #
       check_result.issues (checkBusinessRules other (withoutSegments ''PV1'' pm)) \<and>
     scorePenalty (checkBusinessRules other pm) =
       5 + scorePenalty (checkBusinessRules other (withoutSegments ''PV1'' pm))"
    using checkBusinessRules_pv1 [OF assms(1-5), of other] before by simp
  have second: "check_result.issues (checkBusinessRules other pm') =
       check_result.issues (checkBusinessRules other (withoutSegments ''PV1'' pm')) \<and>
     scorePenalty (checkBusinessRules other pm') =
       scorePenalty (checkBusinessRules other (withoutSegments ''PV1'' pm'))"
    using checkBusinessRules_pv1 [OF assms(6-10), of other] after by simp
  from second have "filter (\<lambda>i. field i = ''PV1-44/45'')
       (check_result.issues (checkBusinessRules other pm')) = []"
    by (simp add: no_pv1_issue_without)
  with first second show ?thesis by blast
qed

theorem discharge_before_admit_witness:
  "find (\<lambda>s. segmentType s = ''PV1'') (segments (visitMessage ''20240110'' ''20240105'')) =
     Some (pv1SegmentWith ''20240110'' ''20240105'') \<and>
   parsed (pv1SegmentWith ''20240110'' ''20240105'') ''field44'' = Some ''20240110'' \<and>
   parsed (pv1SegmentWith ''20240110'' ''20240105'') ''field45'' = Some ''20240105'' \<and>
   take 8 ''20240110'' = ''20240110'' \<and> take 8 ''20240105'' = ''20240105'' \<and>
   find (\<lambda>s. segmentType s = ''PV1'') (segments (visitMessage ''20240105'' ''20240110'')) =
     Some (pv1SegmentWith ''20240105'' ''20240110'') \<and>
   parsed (pv1SegmentWith ''20240105'' ''20240110'') ''field44'' = Some ''20240105'' \<and>
   parsed (pv1SegmentWith ''20240105'' ''20240110'') ''field45'' = Some ''20240110'' \<and>
   check_result.issues
     (checkBusinessRules (\<lambda>s. None) (visitMessage ''20240110'' ''20240105'')) =
     [\<lparr>category = BusinessRules, severity = High, field = ''PV1-44/45'',
       issue = ''Discharge date before admit date'',
       details = ''Discharge date should not be earlier than admit date'',
       recommendation = ''Verify and correct admit and discharge dates''\<rparr>] \<and>
   scorePenalty (checkBusinessRules (\<lambda>s. None) (visitMessage ''20240110'' ''20240105'')) = 5 \<and>
   check_result.issues
     (checkBusinessRules (\<lambda>s. None) (visitMessage ''20240105'' ''20240110'')) = [] \<and>
   scorePenalty (checkBusinessRules (\<lambda>s. None) (visitMessage ''20240105'' ''20240110'')) = 0"
proof -
  have a: "take 8 ''20240110'' = ''20240110''" and d: "take 8 ''20240105'' = ''20240105''"
    by simp_all
  have rest: "checkBusinessRules (\<lambda>s. None) (withoutSegments ''PV1'' (visitMessage x y)) =
      \<lparr>check_result.issues = [], check_result.recommendations = None, scorePenalty = 0\<rparr>"
    for x y
    by (simp add: checkBusinessRules_def withoutSegments_def visitMessage_def
        pv1SegmentWith_def)
  from discharge_before_admit [OF find_visitMessage fields_pv1SegmentWith a d
      find_visitMessage fields_pv1SegmentWith d a, of "\<lambda>s. None"]
    find_visitMessage fields_pv1SegmentWith a d
  show ?thesis by (simp add: rest)
qed

section \<open>Top-level recommendations\<close>

lemma recs_checkMSHCompleteness:
  "check_result.recommendations (checkMSHCompleteness pm) =
     (case find (\<lambda>s. segmentType s = ''MSH'') (segments pm) of
        None \<Rightarrow> None
      | Some s \<Rightarrow> Some [])"
  by (simp add: checkMSHCompleteness_def Let_def split: option.split)

lemma recs_checkPIDCompleteness:
  "check_result.recommendations (checkPIDCompleteness pm) = Some []"
  by (simp add: checkPIDCompleteness_def Let_def split: option.split)

lemma recs_others:
  "check_result.recommendations (checkRequiredSegments pm) = None"
  "check_result.recommendations (checkDateFormats pm) = None"
  "check_result.recommendations (checkIdentifierFormats pm) = None"
  "check_result.recommendations (checkAddressFormats pm) = None"
  "check_result.recommendations (checkPhoneFormats pm) = None"
  "check_result.recommendations (checkDataConsistency pm) = None"
  "check_result.recommendations (checkBusinessRules other pm) = None"
  "check_result.recommendations (checkVersionCompliance pm) = None"
  by (simp_all add: checkRequiredSegments_def checkDateFormats_def checkIdentifierFormats_def
      checkAddressFormats_def checkPhoneFormats_def checkDataConsistency_def
      checkBusinessRules_def checkVersionCompliance_def Let_def)

lemma recsOf_battery:
  "concat (map recsOf
     [checkMSHCompleteness pm, checkRequiredSegments pm, checkPIDCompleteness pm,
      checkDateFormats pm, checkIdentifierFormats pm, checkAddressFormats pm,
      checkPhoneFormats pm, checkDataConsistency pm,
      checkBusinessRules other pm, checkVersionCompliance pm]) = []"
  by (simp add: recsOf_def recs_checkMSHCompleteness recs_checkPIDCompleteness recs_others
      split: option.split)

text \<open>
  Claim C9. When the validator accepts the message and the parser returns a parsed
  message, the recommendations of the report are empty. The arrays that
  \<^verbatim>\<open>checkMSHCompleteness\<close> and \<^verbatim>\<open>checkPIDCompleteness\<close> declare are returned empty (the
  first is not returned at all when the header segment is missing), the eight other
  checks return none, and the recommendation of an issue is not copied.
\<close>

theorem no_top_level_recommendations:
  assumes "validateHL7Message ev hl7Message = Inr v" and "validation.isValid v"
    and "parseHL7Message ev hl7Message = Inr pm"
  shows
    "recommendations (analyzeDataQuality ev hl7Message) = [] \<and>
     recsOf (checkMSHCompleteness pm) = [] \<and>
     check_result.recommendations (checkPIDCompleteness pm) = Some [] \<and>
     map check_result.recommendations
       [checkRequiredSegments pm, checkDateFormats pm, checkIdentifierFormats pm,
        checkAddressFormats pm, checkPhoneFormats pm, checkDataConsistency pm,
        checkBusinessRules (dateParseOther ev) pm, checkVersionCompliance pm] =
       [None, None, None, None, None, None, None, None]"
proof -
  have "recommendations (analyzeDataQuality ev hl7Message) = []"
    unfolding analyzeDataQuality_def
    by (simp only: analyzeWith_success [OF assms runChecks_checkBattery] recsOf_battery
        quality_report.simps) (simp add: dedupe_def)
  moreover have "recsOf (checkMSHCompleteness pm) = []"
    by (simp add: recsOf_def recs_checkMSHCompleteness split: option.split)
  ultimately show ?thesis
    by (simp add: recs_checkPIDCompleteness recs_others)
qed

theorem no_top_level_recommendations_witness:
  "validateHL7Message sampleEnv getSampleADTMessage =
     Inr \<lparr>validation.isValid = True, errors = Some []\<rparr> \<and>
   parseHL7Message sampleEnv getSampleADTMessage = Inr (positionalParse getSampleADTMessage) \<and>
   recommendations (analyzeDataQuality sampleEnv getSampleADTMessage) = []"
proof -
  have valid: "validation.isValid \<lparr>validation.isValid = True, errors = Some []\<rparr>"
    by simp
  from no_top_level_recommendations [OF sampleEnv_validates valid sampleEnv_parses]
    sampleEnv_validates sampleEnv_parses
  show ?thesis by blast
qed

section \<open>The birth date in two checks\<close>

lemma msh_fields:
  "i \<in> set (check_result.issues (checkMSHCompleteness pm)) \<Longrightarrow> take 3 (field i) = ''MSH''"
proof (cases "find (\<lambda>s. segmentType s = ''MSH'') (segments pm)")
  case None
  assume "i \<in> set (check_result.issues (checkMSHCompleteness pm))"
  with None show ?thesis by (simp add: checkMSHCompleteness_def)
next
  case (Some mshSegment)
  let ?P = "\<lambda>st :: quality_issue list \<times> int. \<forall>i \<in> set (fst st). take 3 (field i) = ''MSH''"
  let ?f = "\<lambda>st (fld, name).
      if \<not> truthy (parsed mshSegment fld) \<or> parsed mshSegment fld = Some [] \<or>
         parsed mshSegment fld = Some ''Unknown''
      then addIssue
        \<lparr>category = Completeness, severity = High,
         field = ''MSH-'' @ replaceFirst ''field'' [] fld,
         issue = ''Missing '' @ name,
         details = name @ '' is required in MSH segment'',
         recommendation = ''Populate MSH-'' @ replaceFirst ''field'' [] fld @
           '' with appropriate value''\<rparr> 2 st
      else st"
  have "?P (foldl ?f ([], 0) requiredFields)"
    by (rule foldl_invariant) (auto simp: addIssue_def split: if_splits)
  moreover assume "i \<in> set (check_result.issues (checkMSHCompleteness pm))"
  ultimately show ?thesis using Some
    by (auto simp: checkMSHCompleteness_def Let_def addIssue_def split: if_splits)
qed

lemma no_pid7_msh:
  "filter (\<lambda>i. field i = ''PID-7'') (check_result.issues (checkMSHCompleteness pm)) = []"
  using msh_fields [of _ pm] by (fastforce simp: filter_empty_conv)

lemma no_pid7_required:
  "filter (\<lambda>i. field i = ''PID-7'') (check_result.issues (checkRequiredSegments pm)) = []"
  by (simp add: checkRequiredSegments_def Let_def addIssue_def)

lemma no_pid7_identifier:
  "filter (\<lambda>i. field i = ''PID-7'') (check_result.issues (checkIdentifierFormats pm)) = []"
  by (simp add: checkIdentifierFormats_def Let_def addIssue_def split: option.split)

lemma no_pid7_address:
  "filter (\<lambda>i. field i = ''PID-7'') (check_result.issues (checkAddressFormats pm)) = []"
  by (simp add: checkAddressFormats_def Let_def addIssue_def split: option.split)

lemma no_pid7_phone:
  "filter (\<lambda>i. field i = ''PID-7'') (check_result.issues (checkPhoneFormats pm)) = []"
  by (simp add: checkPhoneFormats_def phoneFields_def Let_def addIssue_def split: option.split)

lemma no_pid7_consistency:
  "filter (\<lambda>i. field i = ''PID-7'') (check_result.issues (checkDataConsistency pm)) = []"
  by (simp add: checkDataConsistency_def Let_def addIssue_def split: option.split)

lemma no_pid7_business:
  "filter (\<lambda>i. field i = ''PID-7'') (check_result.issues (checkBusinessRules other pm)) = []"
  by (simp add: checkBusinessRules_def Let_def addIssue_def split: option.split)

lemma no_pid7_version:
  "filter (\<lambda>i. field i = ''PID-7'') (check_result.issues (checkVersionCompliance pm)) = []"
  by (simp add: checkVersionCompliance_def Let_def addIssue_def split: option.split)

lemma pid7_pid:
  assumes "find (\<lambda>s. segmentType s = ''PID'') (segments pm) = Some pidSegment"
    and "parsed pidSegment ''field7'' = Some v" and "v \<noteq> []" and "\<not> regexTest dateRegex v"
  shows "filter (\<lambda>i. field i = ''PID-7'') (check_result.issues (checkPIDCompleteness pm)) =
     [\<lparr>category = Formatting, severity = Medium, field = ''PID-7'',
       issue = ''Invalid Date of Birth format'',
       details = ''Date of birth should be in format YYYYMMDD'',
       recommendation = ''Format date of birth as YYYYMMDD (e.g., 19800115)''\<rparr>]"
  using assms
  by (simp add: checkPIDCompleteness_def Let_def addIssue_def truthy_def str_def
      dobRegex_dateRegex)

text \<open>A step of the sweep adds its finding to whatever was found before.\<close>

lemma dateFieldStep_additive:
  "dateFieldStep pm st e =
     (fst st @ fst (dateFieldStep pm ([], 0) e), snd st + snd (dateFieldStep pm ([], 0) e))"
  by (cases e; cases st) (simp add: dateFieldStep_def addIssue_def Let_def split: option.split)

lemma foldl_dateFieldStep:
  "foldl (dateFieldStep pm) st es =
     (fst st @ concat (map (\<lambda>e. fst (dateFieldStep pm ([], 0) e)) es),
      snd st + sum_list (map (\<lambda>e. snd (dateFieldStep pm ([], 0) e)) es))"
proof (induction es arbitrary: st)
  case Nil
  show ?case by simp
next
  case (Cons e es)
  have "foldl (dateFieldStep pm) st (e # es) =
        foldl (dateFieldStep pm) (dateFieldStep pm st e) es" by simp
  also have "\<dots> =
     (fst (dateFieldStep pm st e) @ concat (map (\<lambda>e. fst (dateFieldStep pm ([], 0) e)) es),
      snd (dateFieldStep pm st e) + sum_list (map (\<lambda>e. snd (dateFieldStep pm ([], 0) e)) es))"
    by (rule Cons.IH)
  also have "fst (dateFieldStep pm st e) = fst st @ fst (dateFieldStep pm ([], 0) e)"
    by (subst dateFieldStep_additive) simp
  also have "snd (dateFieldStep pm st e) = snd st + snd (dateFieldStep pm ([], 0) e)"
    by (subst dateFieldStep_additive) simp
  finally show ?case by simp
qed

lemma step_field_other:
  "segName @ ''-'' @ replaceFirst ''field'' [] fld \<noteq> ''PID-7'' \<Longrightarrow>
   filter (\<lambda>i. field i = ''PID-7'') (fst (dateFieldStep pm ([], 0) (segName, fld, name))) = []"
  by (simp add: dateFieldStep_def addIssue_def Let_def split: option.split)

lemma step_pid7:
  assumes "find (\<lambda>s. segmentType s = ''PID'') (segments pm) = Some pidSegment"
    and "parsed pidSegment ''field7'' = Some v" and "v \<noteq> []" and "\<not> regexTest dateRegex v"
  shows "dateFieldStep pm ([], 0) (''PID'', ''field7'', ''Date of Birth'') =
     ([\<lparr>category = Formatting, severity = Medium, field = ''PID-7'',
        issue = ''Invalid Date of Birth format'',
        details = ''Date value '' @ dq @ v @ dq @ '' does not match HL7 date format'',
        recommendation = ''Format dates as YYYYMMDD or YYYYMMDDHHMMSS''\<rparr>], 1)"
  using assms by (simp add: dateFieldStep_def addIssue_def Let_def truthy_def str_def)

lemma pid7_sweep:
  assumes "find (\<lambda>s. segmentType s = ''PID'') (segments pm) = Some pidSegment"
    and "parsed pidSegment ''field7'' = Some v" and "v \<noteq> []" and "\<not> regexTest dateRegex v"
  shows "filter (\<lambda>i. field i = ''PID-7'') (check_result.issues (checkDateFormats pm)) =
     [\<lparr>category = Formatting, severity = Medium, field = ''PID-7'',
       issue = ''Invalid Date of Birth format'',
       details = ''Date value '' @ dq @ v @ dq @ '' does not match HL7 date format'',
       recommendation = ''Format dates as YYYYMMDD or YYYYMMDDHHMMSS''\<rparr>]"
  unfolding checkDateFormats_def foldl_dateFieldStep
  by (simp add: dateFields_def step_field_other step_pid7 [OF assms])

lemma step_withField_other_segment:
  "segName \<noteq> t \<Longrightarrow>
   dateFieldStep (withField t k v pm) st (segName, fld, name) =
   dateFieldStep pm st (segName, fld, name)"
  by (simp add: dateFieldStep_def withField_def find_updFirst_other)

lemma step_withField_other_field:
  "fld \<noteq> k \<Longrightarrow>
   dateFieldStep (withField t k v pm) st (t, fld, name) = dateFieldStep pm st (t, fld, name)"
  by (simp add: dateFieldStep_def withField_def find_updFirst_same split: option.split)

lemma step_withField_valid:
  "regexTest dateRegex v \<Longrightarrow>
   dateFieldStep (withField t k v pm) st (t, k, name) = st"
  by (simp add: dateFieldStep_def withField_def find_updFirst_same truthy_def str_def
      split: option.split)

lemma sweep_penalty:
  assumes "find (\<lambda>s. segmentType s = ''PID'') (segments pm) = Some pidSegment"
    and "parsed pidSegment ''field7'' = Some v" and "v \<noteq> []" and "\<not> regexTest dateRegex v"
  shows "scorePenalty (checkDateFormats pm) =
         scorePenalty (checkDateFormats (withField ''PID'' ''field7'' ''19800115'' pm)) + 1"
  unfolding checkDateFormats_def foldl_dateFieldStep
  by (simp add: dateFields_def step_withField_other_segment step_withField_other_field
      step_withField_valid dateRegex_plain step_pid7 [OF assms])

lemma pid_penalty:
  assumes "find (\<lambda>s. segmentType s = ''PID'') (segments pm) = Some pidSegment"
    and "parsed pidSegment ''field7'' = Some v" and "v \<noteq> []" and "\<not> regexTest dateRegex v"
  shows "scorePenalty (checkPIDCompleteness pm) =
         scorePenalty (checkPIDCompleteness (withField ''PID'' ''field7'' ''19800115'' pm)) + 2"
  using assms dateRegex_plain
  by (simp add: checkPIDCompleteness_def withField_def find_updFirst_same Let_def addIssue_def
      truthy_def str_def dobRegex_dateRegex)

text \<open>
  Claim C10. When the birth date of the PID segment is present and fails the date
  pattern, the ten checks together report exactly two issues for the field \<^verbatim>\<open>PID-7\<close>,
  both Medium Formatting and different from each other: the first comes from the
  PID-completeness check and the second from the date-format sweep. Against the same
  message with a well-formed birth date, the first check charges 2 points more and the
  sweep 1 point more, 3 points for the one value.
\<close>

theorem pid7_counted_twice:
  assumes "find (\<lambda>s. segmentType s = ''PID'') (segments pm) = Some pidSegment"
    and "parsed pidSegment ''field7'' = Some v" and "v \<noteq> []" and "\<not> regexTest dateRegex v"
  shows
    "filter (\<lambda>i. field i = ''PID-7'')
       (concat (map check_result.issues
          [checkMSHCompleteness pm, checkRequiredSegments pm, checkPIDCompleteness pm,
           checkDateFormats pm, checkIdentifierFormats pm, checkAddressFormats pm,
           checkPhoneFormats pm, checkDataConsistency pm,
           checkBusinessRules other pm, checkVersionCompliance pm])) =
       [\<lparr>category = Formatting, severity = Medium, field = ''PID-7'',
         issue = ''Invalid Date of Birth format'',
         details = ''Date of birth should be in format YYYYMMDD'',
         recommendation = ''Format date of birth as YYYYMMDD (e.g., 19800115)''\<rparr>,
        \<lparr>category = Formatting, severity = Medium, field = ''PID-7'',
         issue = ''Invalid Date of Birth format'',
         details = ''Date value '' @ dq @ v @ dq @ '' does not match HL7 date format'',
         recommendation = ''Format dates as YYYYMMDD or YYYYMMDDHHMMSS''\<rparr>] \<and>
     filter (\<lambda>i. field i = ''PID-7'') (check_result.issues (checkPIDCompleteness pm)) =
       [\<lparr>category = Formatting, severity = Medium, field = ''PID-7'',
         issue = ''Invalid Date of Birth format'',
         details = ''Date of birth should be in format YYYYMMDD'',
         recommendation = ''Format date of birth as YYYYMMDD (e.g., 19800115)''\<rparr>] \<and>
     filter (\<lambda>i. field i = ''PID-7'') (check_result.issues (checkDateFormats pm)) =
       [\<lparr>category = Formatting, severity = Medium, field = ''PID-7'',
         issue = ''Invalid Date of Birth format'',
         details = ''Date value '' @ dq @ v @ dq @ '' does not match HL7 date format'',
         recommendation = ''Format dates as YYYYMMDD or YYYYMMDDHHMMSS''\<rparr>] \<and>
     \<lparr>category = Formatting, severity = Medium, field = ''PID-7'',
      issue = ''Invalid Date of Birth format'',
      details = ''Date of birth should be in format YYYYMMDD'',
      recommendation = ''Format date of birth as YYYYMMDD (e.g., 19800115)''\<rparr> \<noteq>
     \<lparr>category = Formatting, severity = Medium, field = ''PID-7'',
      issue = ''Invalid Date of Birth format'',
      details = ''Date value '' @ dq @ v @ dq @ '' does not match HL7 date format'',
      recommendation = ''Format dates as YYYYMMDD or YYYYMMDDHHMMSS''\<rparr> \<and>
     scorePenalty (checkPIDCompleteness pm) =
       scorePenalty (checkPIDCompleteness (withField ''PID'' ''field7'' ''19800115'' pm)) + 2 \<and>
     scorePenalty (checkDateFormats pm) =
       scorePenalty (checkDateFormats (withField ''PID'' ''field7'' ''19800115'' pm)) + 1"
proof (intro conjI)
  show "filter (\<lambda>i. field i = ''PID-7'')
       (concat (map check_result.issues
          [checkMSHCompleteness pm, checkRequiredSegments pm, checkPIDCompleteness pm,
           checkDateFormats pm, checkIdentifierFormats pm, checkAddressFormats pm,
           checkPhoneFormats pm, checkDataConsistency pm,
           checkBusinessRules other pm, checkVersionCompliance pm])) =
       [\<lparr>category = Formatting, severity = Medium, field = ''PID-7'',
         issue = ''Invalid Date of Birth format'',
         details = ''Date of birth should be in format YYYYMMDD'',
         recommendation = ''Format date of birth as YYYYMMDD (e.g., 19800115)''\<rparr>,
        \<lparr>category = Formatting, severity = Medium, field = ''PID-7'',
         issue = ''Invalid Date of Birth format'',
         details = ''Date value '' @ dq @ v @ dq @ '' does not match HL7 date format'',
         recommendation = ''Format dates as YYYYMMDD or YYYYMMDDHHMMSS''\<rparr>]"
    by (simp only: list.map concat.simps filter_append filter.simps append_Nil append_Nil2
        no_pid7_msh no_pid7_required no_pid7_identifier no_pid7_address no_pid7_phone
        no_pid7_consistency no_pid7_business no_pid7_version
        pid7_pid [OF assms] pid7_sweep [OF assms] append.simps)
  show "\<lparr>category = Formatting, severity = Medium, field = ''PID-7'',
      issue = ''Invalid Date of Birth format'',
      details = ''Date of birth should be in format YYYYMMDD'',
      recommendation = ''Format date of birth as YYYYMMDD (e.g., 19800115)''\<rparr> \<noteq>
     \<lparr>category = Formatting, severity = Medium, field = ''PID-7'',
      issue = ''Invalid Date of Birth format'',
      details = ''Date value '' @ dq @ v @ dq @ '' does not match HL7 date format'',
      recommendation = ''Format dates as YYYYMMDD or YYYYMMDDHHMMSS''\<rparr>"
    by simp
qed (rule pid7_pid [OF assms] pid7_sweep [OF assms] pid_penalty [OF assms]
       sweep_penalty [OF assms])+

theorem pid7_counted_twice_witness:
  "find (\<lambda>s. segmentType s = ''PID'') (segments (pidMessage ''1980/01/15'')) =
     Some (pidSegmentWith ''1980/01/15'') \<and>
   parsed (pidSegmentWith ''1980/01/15'') ''field7'' = Some ''1980/01/15'' \<and>
   ''1980/01/15'' \<noteq> [] \<and>
   \<not> regexTest dateRegex ''1980/01/15'' \<and>
   filter (\<lambda>i. field i = ''PID-7'')
     (concat (map check_result.issues
        [checkMSHCompleteness (pidMessage ''1980/01/15''),
         checkRequiredSegments (pidMessage ''1980/01/15''),
         checkPIDCompleteness (pidMessage ''1980/01/15''),
         checkDateFormats (pidMessage ''1980/01/15''),
         checkIdentifierFormats (pidMessage ''1980/01/15''),
         checkAddressFormats (pidMessage ''1980/01/15''),
         checkPhoneFormats (pidMessage ''1980/01/15''),
         checkDataConsistency (pidMessage ''1980/01/15''),
         checkBusinessRules (\<lambda>s. None) (pidMessage ''1980/01/15''),
         checkVersionCompliance (pidMessage ''1980/01/15'')])) =
     [\<lparr>category = Formatting, severity = Medium, field = ''PID-7'',
       issue = ''Invalid Date of Birth format'',
       details = ''Date of birth should be in format YYYYMMDD'',
       recommendation = ''Format date of birth as YYYYMMDD (e.g., 19800115)''\<rparr>,
      \<lparr>category = Formatting, severity = Medium, field = ''PID-7'',
       issue = ''Invalid Date of Birth format'',
       details = ''Date value '' @ dq @ ''1980/01/15'' @ dq @
         '' does not match HL7 date format'',
       recommendation = ''Format dates as YYYYMMDD or YYYYMMDDHHMMSS''\<rparr>]"
proof -
  have nonempty: "''1980/01/15'' \<noteq> []" by simp
  from pid7_counted_twice [OF find_pidMessage field7_pidSegmentWith nonempty
      dateRegex_slashes, of "\<lambda>s. None"]
    find_pidMessage field7_pidSegmentWith nonempty dateRegex_slashes
  show ?thesis by blast
qed

section \<open>The sample message\<close>

lemma sample_checks:
  "checkMSHCompleteness (positionalParse getSampleADTMessage) =
     \<lparr>check_result.issues = [], check_result.recommendations = Some [], scorePenalty = 0\<rparr>"
  "checkRequiredSegments (positionalParse getSampleADTMessage) =
     \<lparr>check_result.issues = [], check_result.recommendations = None, scorePenalty = 0\<rparr>"
  "checkPIDCompleteness (positionalParse getSampleADTMessage) =
     \<lparr>check_result.issues = [], check_result.recommendations = Some [], scorePenalty = 0\<rparr>"
  "checkDateFormats (positionalParse getSampleADTMessage) =
     \<lparr>check_result.issues = [], check_result.recommendations = None, scorePenalty = 0\<rparr>"
  "checkIdentifierFormats (positionalParse getSampleADTMessage) =
     \<lparr>check_result.issues = [], check_result.recommendations = None, scorePenalty = 0\<rparr>"
  "checkAddressFormats (positionalParse getSampleADTMessage) =
     \<lparr>check_result.issues = [], check_result.recommendations = None, scorePenalty = 0\<rparr>"
  "checkPhoneFormats (positionalParse getSampleADTMessage) =
     \<lparr>check_result.issues = [], check_result.recommendations = None, scorePenalty = 0\<rparr>"
  "checkDataConsistency (positionalParse getSampleADTMessage) =
     \<lparr>check_result.issues = [], check_result.recommendations = None, scorePenalty = 0\<rparr>"
  "checkBusinessRules other (positionalParse getSampleADTMessage) =
     \<lparr>check_result.issues = [], check_result.recommendations = None, scorePenalty = 0\<rparr>"
  "checkVersionCompliance (positionalParse getSampleADTMessage) =
     \<lparr>check_result.issues = [], check_result.recommendations = None, scorePenalty = 0\<rparr>"
  by code_simp+

text \<open>
  Claim C6. For an environment whose validator accepts the sample message and whose
  parser reads it by position, \<^verbatim>\<open>analyzeDataQuality(getSampleADTMessage())\<close> has the
  score 100 and no issues.
\<close>

theorem sample_message_is_clean:
  assumes "validateHL7Message ev getSampleADTMessage = Inr v" and "validation.isValid v"
    and "parseHL7Message ev getSampleADTMessage = Inr (positionalParse getSampleADTMessage)"
  shows "overallScore (analyzeDataQuality ev getSampleADTMessage) = 100 \<and>
         issues (analyzeDataQuality ev getSampleADTMessage) = []"
  unfolding analyzeDataQuality_def
  by (simp only: analyzeWith_success [OF assms runChecks_checkBattery] sample_checks)
     simp

theorem sample_message_is_clean_witness:
  "validateHL7Message sampleEnv getSampleADTMessage =
     Inr \<lparr>validation.isValid = True, errors = Some []\<rparr> \<and>
   parseHL7Message sampleEnv getSampleADTMessage = Inr (positionalParse getSampleADTMessage) \<and>
   overallScore (analyzeDataQuality sampleEnv getSampleADTMessage) = 100 \<and>
   issues (analyzeDataQuality sampleEnv getSampleADTMessage) = []"
proof -
  have valid: "validation.isValid \<lparr>validation.isValid = True, errors = Some []\<rparr>"
    by simp
  from sample_message_is_clean [OF sampleEnv_validates valid sampleEnv_parses]
    sampleEnv_validates sampleEnv_parses
  show ?thesis by blast
qed

end
